theory Spec2Isabelle
  imports Complex_Main "HOL-Library.Sublist"
begin

section \<open>Pagination component (user/js/components/Pagination.js)\<close>

text \<open>
  Page numbers are JavaScript numbers that only ever hold integers here; they are modelled
  as \<open>int\<close>. The array built by \<open>getPageNumbers\<close> mixes numbers with the string
  \<open>'...'\<close>, so an element is either a page or the ellipsis marker.
\<close>

datatype page_item = Page int | Ellipsis

text \<open>
  The fields of a \<open>Pagination\<close> object that the logic reads or writes. The DOM container is
  left out; \<open>onPageChange\<close> records whether a callback was passed to the constructor
  (\<open>options.onPageChange || null\<close>).
\<close>

record pagination =
  currentPage :: int
  totalPages :: int
  totalItems :: int
  itemsPerPage :: int
  onPageChange :: bool

text \<open>The constructor: page 1 of 1, no items, 12 items per page unless told otherwise.\<close>

definition Pagination :: "int option \<Rightarrow> bool \<Rightarrow> pagination" where
  "Pagination itemsPerPageOpt cb =
     \<lparr> currentPage = 1, totalPages = 1, totalItems = 0,
       itemsPerPage = (case itemsPerPageOpt of None \<Rightarrow> 12 | Some n \<Rightarrow> if n = 0 then 12 else n),
       onPageChange = cb \<rparr>"

definition update :: "pagination \<Rightarrow> int \<Rightarrow> int \<Rightarrow> int \<Rightarrow> pagination" where
  "update p cur tot items = p\<lparr> currentPage := cur, totalPages := tot, totalItems := items \<rparr>"

text \<open>
  The loop \<open>for (let i = lo; i <= hi; i++) pages.push(i)\<close>, with the array passed along.
\<close>

function push_pages :: "int \<Rightarrow> int \<Rightarrow> page_item list \<Rightarrow> page_item list" where
  "push_pages i hi pages = (if i \<le> hi then push_pages (i + 1) hi (pages @ [Page i]) else pages)"
  by pat_completeness auto
termination
  by (relation "measure (\<lambda>(i, hi, pages). nat (hi + 1 - i))") auto

declare push_pages.simps [simp del]

definition getPageNumbers :: "pagination \<Rightarrow> page_item list" where
  "getPageNumbers p =
     (let maxVisible = 7 in
      if totalPages p \<le> maxVisible then push_pages 1 (totalPages p) []
      else
        (let pages = [Page 1] in
         if currentPage p \<le> 4 then
           push_pages 2 5 pages @ [Ellipsis] @ [Page (totalPages p)]
         else if currentPage p \<ge> totalPages p - 3 then
           push_pages (totalPages p - 4) (totalPages p) (pages @ [Ellipsis])
         else
           push_pages (currentPage p - 1) (currentPage p + 1) (pages @ [Ellipsis])
             @ [Ellipsis] @ [Page (totalPages p)]))"

text \<open>
  What a click handler receives from \<open>dataset.page\<close>: the string \<open>'prev'\<close>, the string
  \<open>'next'\<close>, or anything else, which goes through \<open>parseInt(page, 10)\<close>. The last case
  carries the outcome of that parse: an integer, or \<open>None\<close> for \<open>NaN\<close>.
\<close>

datatype page_target = Prev | Next | Other "int option"

text \<open>
  \<open>handlePageClick\<close> returns the new object together with the arguments of the
  \<open>onPageChange\<close> calls it made, in order. Every comparison with \<open>NaN\<close> is false except
  \<open>!==\<close>, so a \<open>NaN\<close> target never passes the range test.
\<close>

definition handlePageClick :: "pagination \<Rightarrow> page_target \<Rightarrow> pagination \<times> int list" where
  "handlePageClick p page =
     (let newPage =
            (case page of
               Prev \<Rightarrow> Some (max 1 (currentPage p - 1))
             | Next \<Rightarrow> Some (min (totalPages p) (currentPage p + 1))
             | Other n \<Rightarrow> n)
      in case newPage of
           None \<Rightarrow> (p, [])
         | Some n \<Rightarrow>
             if n \<noteq> currentPage p \<and> n \<ge> 1 \<and> n \<le> totalPages p then
               (p\<lparr> currentPage := n \<rparr>, if onPageChange p then [n] else [])
             else (p, []))"

section \<open>Strings\<close>

text \<open>
  JavaScript strings are modelled as \<open>string\<close>, one \<open>char\<close> per code unit, which covers
  the code units up to \<open>0xFF\<close>. \<open>String.prototype.trim\<close> strips white space and line
  terminators from both ends; in this range these are TAB, LF, VT, FF, CR, SPACE and the
  no-break space.
\<close>

definition isWhiteSpace :: "char \<Rightarrow> bool" where
  "isWhiteSpace c = (of_char c \<in> set [9, 10, 11, 12, 13, 32, 160 :: nat])"

definition trim :: "string \<Rightarrow> string" where
  "trim s = rev (dropWhile isWhiteSpace (rev (dropWhile isWhiteSpace s)))"

definition startsWith :: "string \<Rightarrow> string \<Rightarrow> bool" where
  "startsWith s p = prefix p s"

definition includes_str :: "string \<Rightarrow> string \<Rightarrow> bool" where
  "includes_str s t = sublist t s"

text \<open>Decimal rendering of a non-negative number inside a template literal.\<close>

definition digit :: "nat \<Rightarrow> char" where
  "digit d = char_of (48 + d)"

function toString :: "nat \<Rightarrow> string" where
  "toString n = (if n < 10 then [digit n] else toString (n div 10) @ [digit (n mod 10)])"
  by pat_completeness auto
termination
  by (relation "measure id") auto

declare toString.simps [simp del]

section \<open>Validators (admin/js/validators.js)\<close>

text \<open>
  A validator returns \<open>{ valid: true }\<close> or \<open>{ valid: false, message }\<close>;
  \<open>validateUrl\<close> returns \<open>{ valid: true, url }\<close> on success.
\<close>

datatype validation = Valid | Invalid string

fun valid :: "validation \<Rightarrow> bool" where
  "valid Valid = True"
| "valid (Invalid m) = False"

datatype url_validation = ValidUrl string | InvalidUrl string

fun url_valid :: "url_validation \<Rightarrow> bool" where
  "url_valid (ValidUrl u) = True"
| "url_valid (InvalidUrl m) = False"

text \<open>
  \<open>/\.[a-z]{2,}$/i.test(hostname)\<close>: the match may start at any index \<open>i\<close> holding a
  dot; after it at least two letters must follow and reach the end of the string. With the
  \<open>i\<close> flag and no \<open>u\<close> flag, \<open>[a-z]\<close> matches exactly the ASCII letters of both cases.
\<close>

definition isAsciiLetter :: "char \<Rightarrow> bool" where
  "isAsciiLetter c =
     (let n = (of_char c :: nat) in (65 \<le> n \<and> n \<le> 90) \<or> (97 \<le> n \<and> n \<le> 122))"

definition tldRegex_test :: "string \<Rightarrow> bool" where
  "tldRegex_test hostname =
     list_ex (\<lambda>i. hostname ! i = CHR ''.''
                \<and> 2 \<le> length (drop (Suc i) hostname)
                \<and> list_all isAsciiLetter (drop (Suc i) hostname))
       [0..<length hostname]"

text \<open>
  \<open>new URL(formattedUrl)\<close> is the platform's parser, not code of this repository. It is a
  parameter: \<open>URL_hostname s\<close> is \<open>None\<close> when the constructor throws on \<open>s\<close> and
  otherwise the \<open>hostname\<close> of the parsed URL, the only property the validator reads.
\<close>

definition validateUrl :: "(string \<Rightarrow> string option) \<Rightarrow> string \<Rightarrow> url_validation" where
  "validateUrl URL_hostname url =
     (if url = [] \<or> trim url = [] then InvalidUrl ''URL is required''
      else
        (let formattedUrl =
               (if \<not> startsWith (trim url) ''http://'' \<and> \<not> startsWith (trim url) ''https://''
                then ''https://'' @ trim url else trim url)
         in case URL_hostname formattedUrl of
              None \<Rightarrow> InvalidUrl ''Invalid URL format''
            | Some hostname \<Rightarrow>
                if hostname = [] then InvalidUrl ''Invalid URL format''
                else if \<not> tldRegex_test hostname then
                  InvalidUrl ''URL must have a valid domain extension''
                else ValidUrl formattedUrl))"

definition validateRequired :: "string \<Rightarrow> string \<Rightarrow> validation" where
  "validateRequired v fieldName =
     (if v = [] \<or> trim v = [] then Invalid (fieldName @ '' is required'') else Valid)"

definition validateLength :: "string \<Rightarrow> nat \<Rightarrow> nat \<Rightarrow> string \<Rightarrow> validation" where
  "validateLength v minLength maxLength fieldName =
     (let trimmedValue = (if v \<noteq> [] then trim v else []) in
      if length trimmedValue < minLength then
        Invalid (fieldName @ '' must be at least '' @ toString minLength @ '' characters long'')
      else if length trimmedValue > maxLength then
        Invalid (fieldName @ '' must not exceed '' @ toString maxLength @ '' characters'')
      else Valid)"

definition validateWebsiteName :: "string \<Rightarrow> validation" where
  "validateWebsiteName nm =
     (let requiredResult = validateRequired nm ''Website name'' in
      if \<not> valid requiredResult then requiredResult
      else
        (let lengthResult = validateLength nm 2 100 ''Website name'' in
         if \<not> valid lengthResult then lengthResult else Valid))"

definition validateDescription :: "string \<Rightarrow> validation" where
  "validateDescription d =
     (let requiredResult = validateRequired d ''Description'' in
      if \<not> valid requiredResult then requiredResult
      else
        (let lengthResult = validateLength d 10 1000 ''Description'' in
         if \<not> valid lengthResult then lengthResult else Valid))"

text \<open>A \<open>File\<close>: its MIME type and its size in bytes.\<close>

record js_file =
  ftype :: string
  fsize :: nat

definition validateImageFile :: "js_file option \<Rightarrow> validation" where
  "validateImageFile fo =
     (case fo of
        None \<Rightarrow> Valid
      | Some f \<Rightarrow>
          if ftype f \<notin> set [''image/jpeg'', ''image/jpg'', ''image/png'', ''image/gif'', ''image/webp'']
          then Invalid ''Invalid file type. Only JPEG, PNG, GIF, and WebP images are allowed''
          else if fsize f > 5 * 1024 * 1024 then Invalid ''Image file size must not exceed 5MB''
          else Valid)"

text \<open>
  The object built from the entry form. The edit form carries two hidden fields more,
  \<open>sheetName\<close> and \<open>rowSerial\<close>; the add form leaves them out.
\<close>

record entry_data =
  name :: string
  category :: string
  url :: string
  description :: string
  imageFile :: "js_file option"

record form_validation =
  form_valid :: bool
  errors :: "(string \<times> string) list"
  data :: entry_data

definition validateEntryForm :: "(string \<Rightarrow> string option) \<Rightarrow> entry_data \<Rightarrow> form_validation" where
  "validateEntryForm URL_hostname formData =
     (let nameResult = validateWebsiteName (name formData);
          errors1 = (case nameResult of Invalid m \<Rightarrow> [(''name'', m)] | Valid \<Rightarrow> []);
          categoryResult = validateRequired (category formData) ''Category'';
          errors2 = errors1 @ (case categoryResult of Invalid m \<Rightarrow> [(''category'', m)] | Valid \<Rightarrow> []);
          urlResult = validateUrl URL_hostname (url formData);
          errors3 = errors2 @ (case urlResult of InvalidUrl m \<Rightarrow> [(''url'', m)] | ValidUrl u \<Rightarrow> []);
          descriptionResult = validateDescription (description formData);
          errors4 = errors3 @
            (case descriptionResult of Invalid m \<Rightarrow> [(''description'', m)] | Valid \<Rightarrow> []);
          errors5 = errors4 @
            (case imageFile formData of
               None \<Rightarrow> []
             | Some f \<Rightarrow>
                 (case validateImageFile (Some f) of Invalid m \<Rightarrow> [(''image'', m)] | Valid \<Rightarrow> []))
      in \<lparr> form_valid = (length errors5 = 0),
           errors = errors5,
           data = (case urlResult of ValidUrl u \<Rightarrow> formData\<lparr> url := u \<rparr>
                   | InvalidUrl m \<Rightarrow> formData) \<rparr>)"

definition validateSearchQuery :: "string \<Rightarrow> validation" where
  "validateSearchQuery query =
     (if query = [] \<or> trim query = [] then Valid
      else
        (let trimmedQuery = trim query in
         if length trimmedQuery < 3 then
           Invalid ''Search query must be at least 3 characters long''
         else if length trimmedQuery > 100 then
           Invalid ''Search query must not exceed 100 characters''
         else Valid))"

text \<open>
  \<open>validateDate\<close> reads the platform twice: \<open>new Date(dateString)\<close>, and the clock with
  the local time zone for \<open>today.setHours(23, 59, 59, 999)\<close>. Both are parameters:
  \<open>Date_parse s\<close> is the time value in milliseconds, \<open>None\<close> for an invalid date, and
  \<open>endOfToday\<close> is the time value of the last millisecond of the current local day.
\<close>

definition validateDate :: "(string \<Rightarrow> int option) \<Rightarrow> int \<Rightarrow> string \<Rightarrow> validation" where
  "validateDate Date_parse endOfToday dateString =
     (if dateString = [] \<or> trim dateString = [] then Valid
      else
        (case Date_parse dateString of
           None \<Rightarrow> Invalid ''Invalid date format''
         | Some date \<Rightarrow>
             if date > endOfToday then Invalid ''Date cannot be in the future'' else Valid))"

section \<open>Filter components\<close>

text \<open>
  Both filter components keep \<open>this.filters = { search, date, category }\<close>. A handler is
  modelled as a function from the filter values and the input to the new values and the
  effects it has on its surroundings, in order. \<open>FiltersChange\<close> stands for one call of
  \<open>notifyFiltersChange\<close>, which hands a copy of the values to the registered callback and
  dispatches the custom event.
\<close>

record filter_values =
  search :: string
  date :: string
  categoryFilter :: string

record entry =
  sheetName :: string
  serial :: int
  entry_name :: string
  imageFileId :: string

text \<open>
  The object \<open>getAPIParams\<close> returns, a key being absent when its filter is empty, and
  the object \<open>loadEntries\<close> passes to \<open>getEntries\<close>: \<open>{ page, size: 12, ...filters }\<close>.
\<close>

record filter_params =
  p_search :: "string option"
  p_startDate :: "string option"
  p_endDate :: "string option"
  p_category :: "string option"

record list_params =
  p_page :: int
  p_size :: int
  p_filters :: filter_params

text \<open>
  The calls of the API layer. \<open>GetEntries\<close> is \<open>getEntries(params)\<close> as \<open>loadEntries\<close>
  calls it; \<open>GetAllEntries\<close> is \<open>getEntries()\<close> without parameters, as the dashboard's
  statistics load calls it. Both go to the list endpoint \<open>/entries/list\<close>.
\<close>

datatype request =
    GetEntries list_params
  | GetAllEntries
  | GetCategories
  | DeleteEntry string int string
  | DeleteCategory string

datatype effect =
    FiltersChange filter_values
  | ShowSearchError string
  | ClearSearchError
  | Toast string string
  | Request request
  | ShowWebLoading bool
  | ShowWebEmptyState bool
  | RenderWebEntries "entry list"
  | OpenDeleteModal string
  | CloseDeleteModal
  | UpdateDashboardStats int nat
  | UpdateCategoryChart "entry list"
  | UpdateCategoryDropdowns "string list"
  | RenderCategoriesList "string list"

definition emptyFilters :: filter_values where
  "emptyFilters = \<lparr> search = [], date = [], categoryFilter = [] \<rparr>"

text \<open>The public component (class \<open>Filters\<close>): two characters or none.\<close>

definition Filters_handleSearchChange ::
  "filter_values \<Rightarrow> string \<Rightarrow> filter_values \<times> effect list" where
  "Filters_handleSearchChange f v =
     (if length v \<ge> 2 \<or> length v = 0 then
        (f\<lparr> search := trim v \<rparr>, [FiltersChange (f\<lparr> search := trim v \<rparr>)])
      else (f, []))"

text \<open>The admin component (class \<open>AdminFilters\<close>).\<close>

definition AdminFilters_handleSearchChange ::
  "filter_values \<Rightarrow> string \<Rightarrow> filter_values \<times> effect list" where
  "AdminFilters_handleSearchChange f v =
     (case validateSearchQuery v of
        Invalid m \<Rightarrow> (f, [ShowSearchError m])
      | Valid \<Rightarrow>
          (f\<lparr> search := trim v \<rparr>, [ClearSearchError, FiltersChange (f\<lparr> search := trim v \<rparr>)]))"

definition AdminFilters_handleDateChange ::
  "(string \<Rightarrow> int option) \<Rightarrow> int \<Rightarrow> filter_values \<Rightarrow> string \<Rightarrow> filter_values \<times> effect list" where
  "AdminFilters_handleDateChange Date_parse endOfToday f v =
     (case validateDate Date_parse endOfToday v of
        Invalid m \<Rightarrow> (f, [Toast m ''error''])
      | Valid \<Rightarrow> (f\<lparr> date := v \<rparr>, [FiltersChange (f\<lparr> date := v \<rparr>)]))"

definition AdminFilters_handleCategoryChange ::
  "filter_values \<Rightarrow> string \<Rightarrow> filter_values \<times> effect list" where
  "AdminFilters_handleCategoryChange f v =
     (f\<lparr> categoryFilter := v \<rparr>, [FiltersChange (f\<lparr> categoryFilter := v \<rparr>)])"

definition AdminFilters_clearAllFilters :: "filter_values \<Rightarrow> filter_values \<times> effect list" where
  "AdminFilters_clearAllFilters f = (emptyFilters, [ClearSearchError, FiltersChange emptyFilters])"

definition getAPIParams :: "filter_values \<Rightarrow> filter_params" where
  "getAPIParams f =
     \<lparr> p_search = (if search f \<noteq> [] then Some (search f) else None),
       p_startDate = (if date f \<noteq> [] then Some (date f) else None),
       p_endDate = (if date f \<noteq> [] then Some (date f) else None),
       p_category = (if categoryFilter f \<noteq> [] then Some (categoryFilter f) else None) \<rparr>"

section \<open>Admin application (class AdminApp) and its delete modal\<close>

text \<open>
  A response of the backend, \<open>{ success, message, data? }\<close>; for the list endpoint
  \<open>data\<close> holds \<open>entries\<close> and \<open>total\<close>, either of which may be missing. An awaited call
  either resolves with a response or rejects with an error, of which only the message is
  read.
\<close>

record list_data =
  d_entries :: "entry list option"
  d_total :: "int option"

record api_response =
  success :: bool
  message :: string
  rdata :: "list_data option"

datatype outcome = Resolved api_response | Rejected string

text \<open>
  The response of the categories endpoint, whose \<open>data\<close> is the array of categories (here
  their names); and the outcome of the \<open>Promise.all\<close> in \<open>loadDashboardStats\<close>, which
  resolves with the list response and the categories response or rejects.
\<close>

record categories_response =
  c_success :: bool
  c_data :: "string list option"

datatype categories_outcome = CategoriesResolved categories_response | CategoriesRejected string

datatype stats_outcome = StatsResolved api_response categories_response | StatsRejected string

text \<open>
  The callback stored in the delete modal is a closure over the arguments of the handler
  that opened it.
\<close>

datatype delete_callback = EntryDeletion string int string | CategoryDeletion string

record delete_modal =
  isOpen :: bool
  modalMessage :: string
  deleteCallback :: "delete_callback option"

text \<open>
  The state of the application. \<open>effects\<close> is the trace of what it did to its
  surroundings, oldest first. \<open>listFetches\<close> and \<open>deleteCalls\<close> count the calls of
  \<open>adminAPI.getEntries\<close> made by \<open>loadEntries\<close>, and of \<open>adminAPI.deleteEntry\<close>, whose
  promises have not settled yet: the suspended halves of the two \<open>async\<close> functions.
  \<open>statsLoads\<close> and \<open>categoryLoads\<close> count the suspended calls of \<open>loadDashboardStats\<close>
  and of \<open>loadCategories\<close> in the same way.
\<close>

record admin_app =
  currentView :: string
  app_currentPage :: int
  isLoading :: bool
  entries :: "entry list"
  totalEntries :: int
  webFilters :: filter_values
  webPagination :: pagination
  deleteModal :: delete_modal
  effects :: "effect list"
  listFetches :: nat
  deleteCalls :: nat
  categories :: "string list"
  statsLoads :: nat
  categoryLoads :: nat

definition AdminApp :: admin_app where
  "AdminApp =
     \<lparr> currentView = ''dashboard'', app_currentPage = 1, isLoading = False, entries = [],
       totalEntries = 0, webFilters = emptyFilters, webPagination = Pagination (Some 12) True,
       deleteModal = \<lparr> isOpen = False, modalMessage = [], deleteCallback = None \<rparr>,
       effects = [], listFetches = 0, deleteCalls = 0, categories = [], statsLoads = 0,
       categoryLoads = 0 \<rparr>"

definition emit :: "effect list \<Rightarrow> admin_app \<Rightarrow> admin_app" where
  "emit es app = app\<lparr> effects := effects app @ es \<rparr>"

definition handleError :: "string \<Rightarrow> string \<Rightarrow> string" where
  "handleError error_message defaultMessage =
     (if includes_str error_message ''APP_SCRIPT_URL'' then
        ''Backend not configured. Please contact administrator.''
      else if includes_str error_message ''Failed to fetch'' then
        ''Network error. Please check your connection.''
      else if includes_str error_message ''Session expired'' then
        ''Session expired. Please login again.''
      else if error_message \<noteq> [] then error_message else defaultMessage)"

text \<open>
  \<open>loadEntries\<close> up to its \<open>await\<close>: the guard, the flag, the loading indicator and the
  call of \<open>getEntries\<close> with the page and the filters.
\<close>

definition loadEntries :: "admin_app \<Rightarrow> admin_app" where
  "loadEntries app =
     (if isLoading app then app
      else
        app\<lparr> isLoading := True,
             effects := effects app @
               [ShowWebLoading True,
                Request (GetEntries \<lparr> p_page = app_currentPage app, p_size = 12,
                      p_filters = getAPIParams (webFilters app) \<rparr>)],
             listFetches := listFetches app + 1 \<rparr>)"

text \<open>
  The message of the \<open>TypeError\<close> raised by \<open>response.data.entries\<close> when \<open>data\<close> is
  missing; the wording is the engine's (here V8's).
\<close>

definition typeErrorMessage :: string where
  "typeErrorMessage = ''Cannot read properties of undefined (reading 'entries')''"

text \<open>\<open>Math.ceil(totalEntries / 12)\<close> on an integer count.\<close>

definition ceil12 :: "int \<Rightarrow> int" where
  "ceil12 t = - ((- t) div 12)"

text \<open>
  Modelled from the spec: the class \<open>AdminPagination\<close> is not among the sources. Its
  \<open>update(currentPage, totalPages, totalItems)\<close> is taken to store the three values, as the
  contract of the pagination controller says and as \<open>Pagination.update\<close> does.
\<close>

definition AdminPagination_update :: "pagination \<Rightarrow> int \<Rightarrow> int \<Rightarrow> int \<Rightarrow> pagination" where
  "AdminPagination_update p cur tot items = update p cur tot items"

text \<open>
  \<open>loadEntries\<close> from its \<open>await\<close> on: the \<open>try\<close> block with the response, the
  \<open>catch\<close> block with the message of whatever was thrown, and the \<open>finally\<close> block.
\<close>

definition loadEntries_catch :: "admin_app \<Rightarrow> string \<Rightarrow> admin_app" where
  "loadEntries_catch app error_message =
     emit [Toast (handleError error_message ''Failed to load websites'') ''error''] app"

definition loadEntries_try :: "admin_app \<Rightarrow> outcome \<Rightarrow> admin_app" where
  "loadEntries_try app out =
     (case out of
        Rejected m \<Rightarrow> loadEntries_catch app m
      | Resolved response \<Rightarrow>
          if success response then
            (case rdata response of
               None \<Rightarrow> loadEntries_catch app typeErrorMessage
             | Some d \<Rightarrow>
                 (let es = (case d_entries d of None \<Rightarrow> [] | Some es \<Rightarrow> es);
                      t = (case d_total d of None \<Rightarrow> 0 | Some t \<Rightarrow> t);
                      totalPages = ceil12 t
                  in app\<lparr> entries := es, totalEntries := t,
                          webPagination :=
                            AdminPagination_update (webPagination app) (app_currentPage app) totalPages t,
                          effects := effects app @
                            [RenderWebEntries es, ShowWebEmptyState (length es = 0)] \<rparr>))
          else
            loadEntries_catch app
              (if message response \<noteq> [] then message response else ''Failed to load entries''))"

definition loadEntries_settled :: "admin_app \<Rightarrow> outcome \<Rightarrow> admin_app" where
  "loadEntries_settled app out =
     (let app1 = loadEntries_try app out in
      app1\<lparr> isLoading := False,
            effects := effects app1 @ [ShowWebLoading False],
            listFetches := listFetches app1 - 1 \<rparr>)"

definition handleWebFiltersChange :: "admin_app \<Rightarrow> admin_app" where
  "handleWebFiltersChange app = loadEntries (app\<lparr> app_currentPage := 1 \<rparr>)"

definition handleWebPageChange :: "admin_app \<Rightarrow> int \<Rightarrow> admin_app" where
  "handleWebPageChange app pg = loadEntries (app\<lparr> app_currentPage := pg \<rparr>)"

text \<open>
  \<open>loadDashboardStats\<close> up to its \<open>await\<close>: it calls \<open>getEntries()\<close> and
  \<open>getCategories()\<close>, with no guard. From the \<open>await\<close> on: with a successful list response
  it updates the two numbers and the chart; anything thrown is only logged to the console.
\<close>

definition loadDashboardStats :: "admin_app \<Rightarrow> admin_app" where
  "loadDashboardStats app =
     (emit [Request GetAllEntries, Request GetCategories] app)\<lparr> statsLoads := statsLoads app + 1 \<rparr>"

definition loadDashboardStats_settled :: "admin_app \<Rightarrow> stats_outcome \<Rightarrow> admin_app" where
  "loadDashboardStats_settled app out =
     (let app0 = app\<lparr> statsLoads := statsLoads app - 1 \<rparr> in
      case out of
        StatsRejected m \<Rightarrow> app0
      | StatsResolved entriesResponse categoriesResponse \<Rightarrow>
          if success entriesResponse then
            (case rdata entriesResponse of
               None \<Rightarrow> app0
             | Some d \<Rightarrow>
                 emit [UpdateDashboardStats
                         (case d_total d of None \<Rightarrow> 0 | Some t \<Rightarrow> t)
                         (case c_data categoriesResponse of None \<Rightarrow> 0 | Some cs \<Rightarrow> length cs),
                       UpdateCategoryChart (case d_entries d of None \<Rightarrow> [] | Some es \<Rightarrow> es)]
                   app0)
          else app0)"

text \<open>
  \<open>loadCategories\<close>, split at its \<open>await\<close> in the same way, and
  \<open>renderCategoriesList\<close>.
\<close>

definition loadCategories :: "admin_app \<Rightarrow> admin_app" where
  "loadCategories app =
     (emit [Request GetCategories] app)\<lparr> categoryLoads := categoryLoads app + 1 \<rparr>"

definition loadCategories_settled :: "admin_app \<Rightarrow> categories_outcome \<Rightarrow> admin_app" where
  "loadCategories_settled app out =
     (let app0 = app\<lparr> categoryLoads := categoryLoads app - 1 \<rparr> in
      case out of
        CategoriesRejected m \<Rightarrow> app0
      | CategoriesResolved response \<Rightarrow>
          (case c_data response of
             None \<Rightarrow> app0
           | Some cs \<Rightarrow>
               if c_success response then
                 emit [UpdateCategoryDropdowns cs] (app0\<lparr> categories := cs \<rparr>)
               else app0))"

definition renderCategoriesList :: "admin_app \<Rightarrow> admin_app" where
  "renderCategoriesList app = emit [RenderCategoriesList (categories app)] app"

definition switchView :: "admin_app \<Rightarrow> string \<Rightarrow> admin_app" where
  "switchView app viewName =
     (let app1 = app\<lparr> currentView := viewName \<rparr> in
      if viewName = ''webList'' then loadEntries app1
      else if viewName = ''dashboard'' then loadDashboardStats app1
      else if viewName = ''addCategory'' then renderCategoriesList app1
      else app1)"

definition refreshCurrentView :: "admin_app \<Rightarrow> admin_app" where
  "refreshCurrentView app =
     emit [Toast ''Data refreshed'' ''success'']
       (if currentView app = ''dashboard'' then loadDashboardStats app
        else if currentView app = ''webList'' then loadEntries app
        else if currentView app = ''addCategory'' then renderCategoriesList (loadCategories app)
        else app)"

text \<open>
  What \<open>init\<close> starts once the configuration is loaded: \<open>initComponents\<close> constructs the
  filter component, which requests the categories for its own dropdown (its continuation
  only fills that dropdown), and \<open>loadInitialData\<close> calls \<open>loadCategories\<close> and
  \<open>loadDashboardStats\<close>.
\<close>

definition loadInitialData :: "admin_app \<Rightarrow> admin_app" where
  "loadInitialData app = loadDashboardStats (loadCategories app)"

definition initialise :: "admin_app \<Rightarrow> admin_app" where
  "initialise app = loadInitialData (emit [Request GetCategories] app)"

text \<open>
  The wiring of \<open>initComponents\<close>: the filter component's callback is
  \<open>handleWebFiltersChange\<close>; everything else a filter handler does is recorded.
\<close>

fun deliver :: "effect list \<Rightarrow> admin_app \<Rightarrow> admin_app" where
  "deliver [] app = app"
| "deliver (e # es) app =
     deliver es
       (case e of
          FiltersChange fv \<Rightarrow> handleWebFiltersChange (emit [e] app)
        | _ \<Rightarrow> emit [e] app)"

definition filterEvent :: "(filter_values \<times> effect list) \<Rightarrow> admin_app \<Rightarrow> admin_app" where
  "filterEvent r app = deliver (snd r) (app\<lparr> webFilters := fst r \<rparr>)"

text \<open>The delete modal: \<open>openWithCallback\<close>, \<open>close\<close> and the confirm button.\<close>

definition openWithCallback :: "admin_app \<Rightarrow> string \<Rightarrow> delete_callback \<Rightarrow> admin_app" where
  "openWithCallback app msg cb =
     emit [OpenDeleteModal msg]
       (app\<lparr> deleteModal := \<lparr> isOpen = True, modalMessage = msg, deleteCallback = Some cb \<rparr> \<rparr>)"

definition closeModal :: "admin_app \<Rightarrow> admin_app" where
  "closeModal app =
     emit [CloseDeleteModal] (app\<lparr> deleteModal := (deleteModal app)\<lparr> isOpen := False \<rparr> \<rparr>)"

definition confirmDelete :: "admin_app \<Rightarrow> admin_app" where
  "confirmDelete app =
     closeModal
       (case deleteCallback (deleteModal app) of
          None \<Rightarrow> app
        | Some (EntryDeletion sn sr img) \<Rightarrow>
            (emit [Request (DeleteEntry sn sr img)] app)\<lparr> deleteCalls := deleteCalls app + 1 \<rparr>
        | Some (CategoryDeletion nm) \<Rightarrow> emit [Request (DeleteCategory nm)] app)"

definition handleDeleteEntry :: "admin_app \<Rightarrow> string \<Rightarrow> int \<Rightarrow> string \<Rightarrow> admin_app" where
  "handleDeleteEntry app sn sr img =
     (case find (\<lambda>e. sheetName e = sn \<and> serial e = sr) (entries app) of
        None \<Rightarrow> app
      | Some e \<Rightarrow>
          openWithCallback app
            (''Are you sure you want to delete \"'' @ entry_name e @ ''\"? This action cannot be undone.'')
            (EntryDeletion sn sr img))"

definition handleDeleteCategory :: "admin_app \<Rightarrow> string \<Rightarrow> admin_app" where
  "handleDeleteCategory app categoryName =
     openWithCallback app
       (''Are you sure you want to delete category \"'' @ categoryName
          @ ''\"? This will also delete all entries in this category.'')
       (CategoryDeletion categoryName)"

text \<open>The callback of \<open>handleDeleteEntry\<close> from its \<open>await\<close> on.\<close>

definition deleteEntry_settled :: "admin_app \<Rightarrow> outcome \<Rightarrow> admin_app" where
  "deleteEntry_settled app out =
     (let app0 = app\<lparr> deleteCalls := deleteCalls app - 1 \<rparr> in
      case out of
        Rejected m \<Rightarrow> emit [Toast (handleError m ''Failed to delete entry'') ''error''] app0
      | Resolved response \<Rightarrow>
          if success response then
            loadEntries (emit [Toast ''Entry deleted successfully!'' ''success''] app0)
          else
            emit [Toast (handleError
                           (if message response \<noteq> [] then message response
                            else ''Failed to delete entry'')
                           ''Failed to delete entry'') ''error''] app0)"

text \<open>
  What can happen to the application. A settle event needs a suspended call, and the
  buttons of the modal can only be pressed while it is shown; otherwise the event cannot
  occur and the step leaves the state alone. \<open>EntryAdded\<close> and \<open>EntrySaved\<close> are the
  successful ends of \<open>completeAddEntry\<close> (which switches to the list view) and of
  \<open>completeUpdate\<close> (which refreshes the current view). \<open>Initialised\<close> is \<open>init\<close>
  reaching its initial loads. The category forms (adding, renaming, and what follows a
  confirmed category delete) call only the category endpoints and \<open>loadCategories\<close>; they
  are left out.
\<close>

datatype event =
    SearchCommitted string
  | DateChanged string
  | CategoryChanged string
  | FiltersCleared
  | PageChanged int
  | ViewSwitched string
  | RefreshClicked
  | EntryAdded
  | EntrySaved
  | ListSettled outcome
  | DeleteClicked string int string
  | CategoryDeleteClicked string
  | ConfirmClicked
  | ModalDismissed
  | DeleteSettled outcome
  | Initialised
  | StatsSettled stats_outcome
  | CategoriesSettled categories_outcome

fun step :: "(string \<Rightarrow> int option) \<Rightarrow> int \<Rightarrow> admin_app \<Rightarrow> event \<Rightarrow> admin_app" where
  "step Date_parse endOfToday app (SearchCommitted v) =
     filterEvent (AdminFilters_handleSearchChange (webFilters app) v) app"
| "step Date_parse endOfToday app (DateChanged v) =
     filterEvent (AdminFilters_handleDateChange Date_parse endOfToday (webFilters app) v) app"
| "step Date_parse endOfToday app (CategoryChanged v) =
     filterEvent (AdminFilters_handleCategoryChange (webFilters app) v) app"
| "step Date_parse endOfToday app FiltersCleared =
     filterEvent (AdminFilters_clearAllFilters (webFilters app)) app"
| "step Date_parse endOfToday app (PageChanged pg) = handleWebPageChange app pg"
| "step Date_parse endOfToday app (ViewSwitched v) = switchView app v"
| "step Date_parse endOfToday app RefreshClicked = refreshCurrentView app"
| "step Date_parse endOfToday app EntryAdded =
     switchView (emit [Toast ''Entry added successfully!'' ''success''] app) ''webList''"
| "step Date_parse endOfToday app EntrySaved =
     refreshCurrentView (emit [Toast ''Entry updated successfully!'' ''success''] app)"
| "step Date_parse endOfToday app (ListSettled out) =
     (if listFetches app = 0 then app else loadEntries_settled app out)"
| "step Date_parse endOfToday app (DeleteClicked sn sr img) = handleDeleteEntry app sn sr img"
| "step Date_parse endOfToday app (CategoryDeleteClicked nm) = handleDeleteCategory app nm"
| "step Date_parse endOfToday app ConfirmClicked =
     (if isOpen (deleteModal app) then confirmDelete app else app)"
| "step Date_parse endOfToday app ModalDismissed =
     (if isOpen (deleteModal app) then closeModal app else app)"
| "step Date_parse endOfToday app (DeleteSettled out) =
     (if deleteCalls app = 0 then app else deleteEntry_settled app out)"
| "step Date_parse endOfToday app Initialised = initialise app"
| "step Date_parse endOfToday app (StatsSettled out) =
     (if statsLoads app = 0 then app else loadDashboardStats_settled app out)"
| "step Date_parse endOfToday app (CategoriesSettled out) =
     (if categoryLoads app = 0 then app else loadCategories_settled app out)"

definition run :: "(string \<Rightarrow> int option) \<Rightarrow> int \<Rightarrow> admin_app \<Rightarrow> event list \<Rightarrow> admin_app" where
  "run Date_parse endOfToday app evs = foldl (step Date_parse endOfToday) app evs"

section \<open>Submitting the entry forms\<close>

text \<open>
  The values a submit handler reads from \<open>new FormData(form)\<close>: four text fields and the
  file of the image input, which is an empty file when nothing was chosen. The edit form
  has the hidden fields \<open>sheetName\<close> and \<open>rowSerial\<close> in addition.
\<close>

record form_fields =
  fd_name :: string
  fd_category :: string
  fd_url :: string
  fd_description :: string
  fd_image :: "js_file option"

datatype form_value = Text string | Blob js_file

datatype submit_effect =
    ShowFieldErrors "(string \<times> string) list"
  | ShowUploadProgress bool
  | ProgressShown real
  | CreateEntry "(string \<times> form_value) list"
  | UpdateEntry "(string \<times> form_value) list"

fun is_request :: "submit_effect \<Rightarrow> bool" where
  "is_request (CreateEntry fd) = True"
| "is_request (UpdateEntry fd) = True"
| "is_request e = False"

definition formObject :: "form_fields \<Rightarrow> entry_data" where
  "formObject ff =
     \<lparr> name = fd_name ff, category = fd_category ff, url = fd_url ff,
       description = fd_description ff,
       imageFile = (case fd_image ff of
                      None \<Rightarrow> None
                    | Some f \<Rightarrow> if fsize f > 0 then Some f else None) \<rparr>"

text \<open>
  \<open>simulateUploadProgress\<close>: every 100 ms the interval adds \<open>Math.random() * 15\<close> to the
  progress; from 90 on it sets the progress to 90, stops the interval and schedules the
  callback; then it shows the progress. \<open>draws\<close> are the values \<open>Math.random()\<close> returns
  at the ticks that have happened so far. The result is the progress shown at each tick
  and whether the callback was scheduled. The arithmetic is done on reals; the numbers of
  the source are binary floating point.
\<close>

fun simulateUploadProgress :: "real \<Rightarrow> real list \<Rightarrow> real list \<times> bool" where
  "simulateUploadProgress progress [] = ([], False)"
| "simulateUploadProgress progress (r # draws) =
     (if progress + r * 15 \<ge> 90 then ([90], True)
      else
        (case simulateUploadProgress (progress + r * 15) draws of
           (shown, fired) \<Rightarrow> ((progress + r * 15) # shown, fired)))"

text \<open>
  \<open>AdminApp.handleAddEntry\<close>, followed through the simulated progress to the call of
  \<open>completeAddEntry\<close>, which sends the request. The request body is built from
  \<open>validation.data\<close> without \<open>imageFile\<close>, the image appended last.
\<close>

definition handleAddEntry ::
  "(string \<Rightarrow> string option) \<Rightarrow> form_fields \<Rightarrow> real list \<Rightarrow> submit_effect list" where
  "handleAddEntry URL_hostname ff draws =
     (let d = formObject ff; validation = validateEntryForm URL_hostname d in
      if \<not> form_valid validation then [ShowFieldErrors (errors validation)]
      else
        ShowUploadProgress True #
          (let apiFormData =
                 [(''name'', Text (name (data validation))),
                  (''category'', Text (category (data validation))),
                  (''url'', Text (url (data validation))),
                  (''description'', Text (description (data validation)))]
           in case imageFile d of
                Some f \<Rightarrow>
                  (case simulateUploadProgress 0 draws of
                     (shown, fired) \<Rightarrow>
                       map ProgressShown shown @
                         (if fired then [CreateEntry (apiFormData @ [(''image'', Blob f)])] else []))
              | None \<Rightarrow> [CreateEntry apiFormData]))"

text \<open>
  \<open>EditEntryModal.handleSubmit\<close>, likewise. Its request body is built from the object
  read off the form, not from \<open>validation.data\<close>.
\<close>

definition handleSubmit ::
  "(string \<Rightarrow> string option) \<Rightarrow> string \<Rightarrow> string \<Rightarrow> form_fields \<Rightarrow> real list
     \<Rightarrow> submit_effect list" where
  "handleSubmit URL_hostname sheetNameField rowSerialField ff draws =
     (let d = formObject ff; validation = validateEntryForm URL_hostname d in
      if \<not> form_valid validation then [ShowFieldErrors (errors validation)]
      else
        ShowUploadProgress True #
          (let apiFormData =
                 [(''sheetName'', Text sheetNameField),
                  (''rowSerial'', Text rowSerialField),
                  (''name'', Text (name d)),
                  (''category'', Text (category d)),
                  (''url'', Text (url d)),
                  (''description'', Text (description d))]
           in case imageFile d of
                Some f \<Rightarrow>
                  (case simulateUploadProgress 0 draws of
                     (shown, fired) \<Rightarrow>
                       map ProgressShown shown @
                         (if fired then [UpdateEntry (apiFormData @ [(''image'', Blob f)])] else []))
              | None \<Rightarrow> [UpdateEntry apiFormData]))"

section \<open>Sample surroundings\<close>

text \<open>
  Stand-ins for the platform in the examples below. \<open>sampleHostname\<close> knows the
  hostname of two URLs and, like the platform's parser, rejects a bare scheme and a host
  with spaces; \<open>sampleDate\<close> knows two calendar dates (as UTC midnights) and, like the
  platform's, yields an invalid date for a blank string; \<open>sampleEndOfToday\<close> is the last
  millisecond of 2 November 2026 UTC.
\<close>

definition sampleHostname :: "string \<Rightarrow> string option" where
  "sampleHostname s =
     (if s = ''https://google.com'' then Some ''google.com''
      else if s = ''http://localhost:8080/x'' then Some ''localhost''
      else None)"

definition sampleDate :: "string \<Rightarrow> int option" where
  "sampleDate s =
     (if s = ''2024-01-15'' then Some 1705276800000
      else if s = ''2999-12-31'' then Some 32503593600000
      else None)"

definition sampleEndOfToday :: int where
  "sampleEndOfToday = 1793663999999"

definition sampleForm :: form_fields where
  "sampleForm =
     \<lparr> fd_name = ''Google'', fd_category = ''Search'', fd_url = ''google.com'',
       fd_description = ''A web search engine'',
       fd_image = Some \<lparr> ftype = ''image/png'', fsize = 2048 \<rparr> \<rparr>"

text \<open>The same fields with no image chosen: the image input yields an empty file.\<close>

definition samplePlainForm :: form_fields where
  "samplePlainForm = sampleForm\<lparr> fd_image := Some \<lparr> ftype = [], fsize = 0 \<rparr> \<rparr>"

definition sampleEntry :: entry where
  "sampleEntry =
     \<lparr> sheetName = ''Search'', serial = 1, entry_name = ''Google'', imageFileId = ''img-1'' \<rparr>"

definition sampleList :: api_response where
  "sampleList =
     \<lparr> success = True, message = ''ok'',
       rdata = Some \<lparr> d_entries = Some [sampleEntry], d_total = Some 1 \<rparr> \<rparr>"

definition sampleOk :: api_response where
  "sampleOk = \<lparr> success = True, message = ''deleted'', rdata = None \<rparr>"

section \<open>The URL rule in the words of the specification\<close>

text \<open>
  The normalisation the specification describes: trim, then prefix \<open>https://\<close> unless the
  string starts with \<open>http://\<close> or \<open>https://\<close>. And its condition on the hostname: it ends
  with a dot followed by at least two letters.
\<close>

definition normalizedUrl :: "string \<Rightarrow> string" where
  "normalizedUrl u =
     (if startsWith (trim u) ''http://'' \<or> startsWith (trim u) ''https://'' then trim u
      else ''https://'' @ trim u)"

definition endsWithExtension :: "string \<Rightarrow> bool" where
  "endsWithExtension hostname =
     (\<exists>pre ext. hostname = pre @ ''.'' @ ext \<and> 2 \<le> length ext \<and> list_all isAsciiLetter ext)"

section \<open>Observations on the trace\<close>

text \<open>
  Which effects are the list requests of \<open>loadEntries\<close> (\<open>isGetEntries\<close>), which are
  requests to the list endpoint from anywhere (\<open>isListRequest\<close>), which mark the end of a
  fetch of \<open>loadEntries\<close> (the \<open>finally\<close> block hiding the loading indicator), and which
  are delete requests; and which outcomes of a list fetch count as failed: a rejection, or a
  response with \<open>success: false\<close>.
\<close>

fun isGetEntries :: "effect \<Rightarrow> bool" where
  "isGetEntries (Request (GetEntries ps)) = True"
| "isGetEntries e = False"

fun isListRequest :: "effect \<Rightarrow> bool" where
  "isListRequest (Request (GetEntries ps)) = True"
| "isListRequest (Request GetAllEntries) = True"
| "isListRequest e = False"

fun isListDone :: "effect \<Rightarrow> bool" where
  "isListDone (ShowWebLoading b) = (\<not> b)"
| "isListDone e = False"

fun isDeleteEntry :: "effect \<Rightarrow> bool" where
  "isDeleteEntry (Request (DeleteEntry sn sr img)) = True"
| "isDeleteEntry e = False"

fun failed :: "outcome \<Rightarrow> bool" where
  "failed (Rejected m) = True"
| "failed (Resolved response) = (\<not> success response)"

text \<open>
  The invariant of the fetches of \<open>loadEntries\<close>: the counter of suspended fetches is 1
  while the flag is set and 0 otherwise, and the trace holds one request of \<open>loadEntries\<close>
  for every finished fetch plus the suspended ones.
\<close>

definition single_fetch :: "admin_app \<Rightarrow> bool" where
  "single_fetch app =
     (listFetches app = (if isLoading app then 1 else 0)
      \<and> length (filter isGetEntries (effects app))
          = length (filter isListDone (effects app)) + listFetches app)"

text \<open>The text of the confirmation prompt for an entry.\<close>

definition deleteMessage :: "entry \<Rightarrow> string" where
  "deleteMessage e =
     ''Are you sure you want to delete \"'' @ entry_name e @ ''\"? This action cannot be undone.''"

text \<open>
  Two states for the examples: the list view loaded with one entry; and that state after
  the entry's delete button was pressed and confirmed and the category filter was changed,
  so that a delete call and a list fetch are both suspended.
\<close>

definition sampleLoaded :: admin_app where
  "sampleLoaded =
     run sampleDate sampleEndOfToday AdminApp
       [ViewSwitched ''webList'', ListSettled (Resolved sampleList)]"

definition sampleDeleting :: admin_app where
  "sampleDeleting =
     run sampleDate sampleEndOfToday sampleLoaded
       [DeleteClicked ''Search'' 1 ''img-1'', ConfirmClicked, CategoryChanged ''Tools'']"

section \<open>Properties of the pagination component\<close>

lemma push_pages_eq: "push_pages i hi pages = pages @ map Page [i..hi]"
proof (induction i hi pages rule: push_pages.induct)
  case (1 i hi pages)
  show ?case
  proof (cases "i \<le> hi")
    case True
    then have "[i..hi] = i # [i + 1..hi]"
      by (simp add: upto_rec1)
    with True 1 show ?thesis
      by (simp add: push_pages.simps [of i hi pages])
  next
    case False
    then show ?thesis
      by (simp add: push_pages.simps [of i hi pages])
  qed
qed

text \<open>
  Claim C1. For every pair with \<open>1 \<le> currentPage \<le> totalPages\<close> the window is: all
  pages when there are at most seven; otherwise pages 1 to 5, an ellipsis and the last page
  when the current page is at most 4; page 1, an ellipsis and the last five pages when the
  current page is within three of the end; and page 1, an ellipsis, the current page with
  its two neighbours, an ellipsis and the last page in between. The three windows for ten
  pages (current page 1, 10 and 5) are part of the statement.
\<close>

theorem getPageNumbers_window:
  assumes "1 \<le> cur" and "cur \<le> tot"
  shows "getPageNumbers (update p cur tot items) =
           (if tot \<le> 7 then map Page [1..tot]
            else if cur \<le> 4 then
              [Page 1, Page 2, Page 3, Page 4, Page 5, Ellipsis, Page tot]
            else if cur \<ge> tot - 3 then
              [Page 1, Ellipsis, Page (tot - 4), Page (tot - 3), Page (tot - 2),
               Page (tot - 1), Page tot]
            else
              [Page 1, Ellipsis, Page (cur - 1), Page cur, Page (cur + 1), Ellipsis, Page tot])
         \<and> getPageNumbers (update p 1 10 items) =
             [Page 1, Page 2, Page 3, Page 4, Page 5, Ellipsis, Page 10]
         \<and> getPageNumbers (update p 10 10 items) =
             [Page 1, Ellipsis, Page 6, Page 7, Page 8, Page 9, Page 10]
         \<and> getPageNumbers (update p 5 10 items) =
             [Page 1, Ellipsis, Page 4, Page 5, Page 6, Ellipsis, Page 10]"
proof -
  have five: "[2..5] = [2, 3, 4, (5::int)]"
    by (simp add: upto_rec1)
  have tail: "[tot - 4..tot] = [tot - 4, tot - 3, tot - 2, tot - 1, tot]"
    by (simp add: upto_rec1)
  have mid: "[cur - 1..cur + 1] = [cur - 1, cur, cur + 1]"
    by (simp add: upto_rec1)
  have t10: "[6..10] = [6, 7, 8, 9, (10::int)]" and m10: "[4..6] = [4, 5, (6::int)]"
    by (simp_all add: upto_rec1)
  have general: "getPageNumbers (update p cur tot items) =
           (if tot \<le> 7 then map Page [1..tot]
            else if cur \<le> 4 then
              [Page 1, Page 2, Page 3, Page 4, Page 5, Ellipsis, Page tot]
            else if cur \<ge> tot - 3 then
              [Page 1, Ellipsis, Page (tot - 4), Page (tot - 3), Page (tot - 2),
               Page (tot - 1), Page tot]
            else
              [Page 1, Ellipsis, Page (cur - 1), Page cur, Page (cur + 1), Ellipsis, Page tot])"
    by (simp add: getPageNumbers_def update_def push_pages_eq five tail mid)
  have a: "getPageNumbers (update p 1 10 items) =
             [Page 1, Page 2, Page 3, Page 4, Page 5, Ellipsis, Page 10]"
    by (simp add: getPageNumbers_def update_def push_pages_eq five)
  have b: "getPageNumbers (update p 10 10 items) =
             [Page 1, Ellipsis, Page 6, Page 7, Page 8, Page 9, Page 10]"
    by (simp add: getPageNumbers_def update_def push_pages_eq t10)
  have c: "getPageNumbers (update p 5 10 items) =
             [Page 1, Ellipsis, Page 4, Page 5, Page 6, Ellipsis, Page 10]"
    by (simp add: getPageNumbers_def update_def push_pages_eq m10)
  from general a b c show ?thesis by blast
qed

theorem getPageNumbers_window_witness:
  "(1::int) \<le> 6 \<and> (6::int) \<le> 12 \<and>
   getPageNumbers (update (Pagination None True) 6 12 140) =
     [Page 1, Ellipsis, Page 5, Page 6, Page 7, Ellipsis, Page 12]"
  using getPageNumbers_window [of 6 12 "Pagination None True" 140] by simp

text \<open>
  Claim C8, which fails as stated: after \<open>update(5, 2, 13)\<close> a click on "previous" leaves the
  current page at 5, although \<open>max(1, currentPage - 1)\<close> is 4, because the target is
  checked against \<open>totalPages\<close> before it is taken.
\<close>

theorem handlePageClick_clamp_counterexample:
  "currentPage (fst (handlePageClick (update (Pagination None True) 5 2 13) Prev))
     \<noteq> max 1 (currentPage (update (Pagination None True) 5 2 13) - 1)"
  by (simp add: handlePageClick_def update_def Pagination_def)

text \<open>
  Claim C8 as amended. "Previous" moves to \<open>max(1, currentPage - 1)\<close> and "next" to
  \<open>min(totalPages, currentPage + 1)\<close> whenever that target lies in \<open>[1, totalPages]\<close>, which
  it does in every state with \<open>1 \<le> currentPage \<le> totalPages\<close>. A click on a page number
  below 1 or above \<open>totalPages\<close>, on something that is no number, or on the current page
  changes nothing and fires no callback. Any click that leaves the current page as it was
  changes nothing at all; any click that changes it changes only the current page, to a
  page within \<open>[1, totalPages]\<close>, and calls the registered callback exactly once with the
  new page.
\<close>

theorem handlePageClick_clicks:
  "(max 1 (currentPage p - 1) \<le> totalPages p \<longrightarrow>
      currentPage (fst (handlePageClick p Prev)) = max 1 (currentPage p - 1))
   \<and> (1 \<le> min (totalPages p) (currentPage p + 1) \<longrightarrow>
      currentPage (fst (handlePageClick p Next)) = min (totalPages p) (currentPage p + 1))
   \<and> (1 \<le> currentPage p \<and> currentPage p \<le> totalPages p \<longrightarrow>
      max 1 (currentPage p - 1) \<le> totalPages p \<and> 1 \<le> min (totalPages p) (currentPage p + 1))
   \<and> (totalPages p < max 1 (currentPage p - 1) \<longrightarrow> handlePageClick p Prev = (p, []))
   \<and> (min (totalPages p) (currentPage p + 1) < 1 \<longrightarrow> handlePageClick p Next = (p, []))
   \<and> (n < 1 \<or> n > totalPages p \<longrightarrow> handlePageClick p (Other (Some n)) = (p, []))
   \<and> handlePageClick p (Other None) = (p, [])
   \<and> handlePageClick p (Other (Some (currentPage p))) = (p, [])
   \<and> (currentPage (fst (handlePageClick p t)) = currentPage p \<longrightarrow> handlePageClick p t = (p, []))
   \<and> (currentPage (fst (handlePageClick p t)) \<noteq> currentPage p \<longrightarrow>
        fst (handlePageClick p t) = p\<lparr> currentPage := currentPage (fst (handlePageClick p t)) \<rparr>
        \<and> 1 \<le> currentPage (fst (handlePageClick p t))
        \<and> currentPage (fst (handlePageClick p t)) \<le> totalPages p
        \<and> (onPageChange p \<longrightarrow>
              snd (handlePageClick p t) = [currentPage (fst (handlePageClick p t))]))"
  by (cases t) (auto simp: handlePageClick_def Let_def split: option.splits)

theorem handlePageClick_clicks_witness:
  "max 1 (currentPage (update (Pagination None True) 3 10 120) - 1)
      \<le> totalPages (update (Pagination None True) 3 10 120)
   \<and> currentPage (fst (handlePageClick (update (Pagination None True) 3 10 120) Prev)) = 2
   \<and> snd (handlePageClick (update (Pagination None True) 3 10 120) Prev) = [2]
   \<and> handlePageClick (update (Pagination None True) 3 10 120) (Other (Some 11))
        = (update (Pagination None True) 3 10 120, [])"
  using handlePageClick_clicks [of "update (Pagination None True) 3 10 120" 11 Prev]
  by (simp add: update_def Pagination_def)

section \<open>Properties of the filter components\<close>

lemma trim_Nil: "trim [] = []"
  by (simp add: trim_def)

text \<open>
  Claim C2, which fails as stated on the admin surface. Two blanks are a non-empty string
  of trimmed length 0, yet they are accepted: the query is cleared and the change is
  notified. A string of 101 letters meets the minimum of three, yet it is rejected.
\<close>

theorem search_gate_counterexample:
  "''  '' \<noteq> [] \<and> length (trim ''  '') < 3
   \<and> AdminFilters_handleSearchChange \<lparr> search = ''abc'', date = [], categoryFilter = [] \<rparr> ''  ''
       = (emptyFilters, [ClearSearchError, FiltersChange emptyFilters])
   \<and> 3 \<le> length (trim (replicate 101 (CHR ''a'')))
   \<and> AdminFilters_handleSearchChange emptyFilters (replicate 101 (CHR ''a''))
       = (emptyFilters, [ShowSearchError ''Search query must not exceed 100 characters''])"
  by (simp add: AdminFilters_handleSearchChange_def validateSearchQuery_def trim_def
      isWhiteSpace_def emptyFilters_def)

text \<open>
  Claim C2 as amended. The empty string is accepted on both surfaces and clears the query.
  On the admin surface a string that is empty after trimming is accepted likewise; a string
  whose trimmed length is 1 or 2 is rejected, with the filter values unchanged, no
  notification and the inline error shown; a string whose trimmed length is between 3 and
  100 is committed, trimmed, and notified. On the public surface a string of length 1 is
  rejected silently with the filter values unchanged, and a string of length 2 or more is
  committed, trimmed, and notified.
\<close>

theorem search_gate:
  "Filters_handleSearchChange f [] = (f\<lparr> search := [] \<rparr>, [FiltersChange (f\<lparr> search := [] \<rparr>)])
   \<and> AdminFilters_handleSearchChange f []
        = (f\<lparr> search := [] \<rparr>, [ClearSearchError, FiltersChange (f\<lparr> search := [] \<rparr>)])
   \<and> (trim s = [] \<longrightarrow>
        AdminFilters_handleSearchChange f s
          = (f\<lparr> search := [] \<rparr>, [ClearSearchError, FiltersChange (f\<lparr> search := [] \<rparr>)]))
   \<and> (trim s \<noteq> [] \<and> length (trim s) < 3 \<longrightarrow>
        AdminFilters_handleSearchChange f s
          = (f, [ShowSearchError ''Search query must be at least 3 characters long'']))
   \<and> (3 \<le> length (trim s) \<and> length (trim s) \<le> 100 \<longrightarrow>
        AdminFilters_handleSearchChange f s
          = (f\<lparr> search := trim s \<rparr>, [ClearSearchError, FiltersChange (f\<lparr> search := trim s \<rparr>)]))
   \<and> (s \<noteq> [] \<and> length s < 2 \<longrightarrow> Filters_handleSearchChange f s = (f, []))
   \<and> (2 \<le> length s \<longrightarrow>
        Filters_handleSearchChange f s
          = (f\<lparr> search := trim s \<rparr>, [FiltersChange (f\<lparr> search := trim s \<rparr>)]))"
  by (auto simp: Filters_handleSearchChange_def AdminFilters_handleSearchChange_def
      validateSearchQuery_def Let_def trim_def)

theorem search_gate_witness:
  "trim ''ab'' \<noteq> [] \<and> length (trim ''ab'') < 3
   \<and> AdminFilters_handleSearchChange emptyFilters ''ab''
       = (emptyFilters, [ShowSearchError ''Search query must be at least 3 characters long''])
   \<and> 2 \<le> length ''ab''
   \<and> Filters_handleSearchChange emptyFilters ''ab''
       = (emptyFilters\<lparr> search := trim ''ab'' \<rparr>,
          [FiltersChange (emptyFilters\<lparr> search := trim ''ab'' \<rparr>)])
   \<and> ''a'' \<noteq> [] \<and> length ''a'' < 2
   \<and> Filters_handleSearchChange emptyFilters ''a'' = (emptyFilters, [])"
proof -
  have t: "trim ''ab'' \<noteq> []" "length (trim ''ab'') < 3"
    by (simp_all add: trim_def isWhiteSpace_def)
  have l: "2 \<le> length ''ab''" "''a'' \<noteq> []" "length ''a'' < 2"
    by simp_all
  from t l search_gate [of emptyFilters "''ab''"] search_gate [of emptyFilters "''a''"]
  show ?thesis by blast
qed

text \<open>
  Claim C9. An admin search query whose trimmed length exceeds 100 is rejected with the
  message "Search query must not exceed 100 characters": the handler leaves the filter
  values alone and only shows the error, so the application's state is unchanged but for
  that effect; no filter change is notified and no request is made.
\<close>

theorem search_too_long:
  assumes "length (trim s) > 100"
  shows "validateSearchQuery s = Invalid ''Search query must not exceed 100 characters''
         \<and> AdminFilters_handleSearchChange f s
             = (f, [ShowSearchError ''Search query must not exceed 100 characters''])
         \<and> step Date_parse endOfToday app (SearchCommitted s)
             = app\<lparr> effects := effects app
                        @ [ShowSearchError ''Search query must not exceed 100 characters''] \<rparr>"
proof -
  from assms have ne: "s \<noteq> []" "trim s \<noteq> []"
    by (auto simp: trim_Nil)
  with assms have v: "validateSearchQuery s = Invalid ''Search query must not exceed 100 characters''"
    by (simp add: validateSearchQuery_def Let_def)
  then have h: "AdminFilters_handleSearchChange (webFilters app) s
             = (webFilters app, [ShowSearchError ''Search query must not exceed 100 characters''])"
     and h': "AdminFilters_handleSearchChange f s
             = (f, [ShowSearchError ''Search query must not exceed 100 characters''])"
    by (simp_all add: AdminFilters_handleSearchChange_def)
  have "step Date_parse endOfToday app (SearchCommitted s)
             = app\<lparr> effects := effects app
                        @ [ShowSearchError ''Search query must not exceed 100 characters''] \<rparr>"
    by (simp add: h filterEvent_def emit_def)
  with v h' show ?thesis by simp
qed

theorem search_too_long_witness:
  "length (trim (replicate 101 (CHR ''a''))) > 100
   \<and> step sampleDate sampleEndOfToday AdminApp (SearchCommitted (replicate 101 (CHR ''a'')))
       = AdminApp\<lparr> effects := effects AdminApp
            @ [ShowSearchError ''Search query must not exceed 100 characters''] \<rparr>"
proof -
  have h: "length (trim (replicate 101 (CHR ''a''))) > 100"
    by (simp add: trim_def isWhiteSpace_def)
  from search_too_long [OF h, of emptyFilters sampleDate sampleEndOfToday AdminApp] h
  show ?thesis by blast
qed

text \<open>
  Claim C10, which fails as stated: a string of two blanks does not parse as a date, yet it
  is accepted and stored as the date filter, because a string that is empty after trimming
  counts as no date.
\<close>

theorem date_gate_counterexample:
  "''  '' \<noteq> [] \<and> sampleDate ''  '' = None
   \<and> validateDate sampleDate sampleEndOfToday ''  '' = Valid
   \<and> AdminFilters_handleDateChange sampleDate sampleEndOfToday emptyFilters ''  ''
       = (emptyFilters\<lparr> date := ''  '' \<rparr>, [FiltersChange (emptyFilters\<lparr> date := ''  '' \<rparr>)])"
  by (simp add: sampleDate_def validateDate_def AdminFilters_handleDateChange_def trim_def
      isWhiteSpace_def)

text \<open>
  Claim C10 as amended. The date validation accepts the empty string and every string
  that is empty after trimming. It rejects every other string that does not parse as a
  date, and every other string that parses to a date later than the end of the current
  day, the latter with "Date cannot be in the future". On any rejection the handler shows
  the message as a toast and leaves the filter values alone; the application's state is
  unchanged but for that effect, so no filter change is notified and no request is made.
\<close>

theorem date_gate:
  "validateDate Date_parse endOfToday [] = Valid
   \<and> (trim s = [] \<longrightarrow> validateDate Date_parse endOfToday s = Valid)
   \<and> (trim s \<noteq> [] \<and> Date_parse s = None \<longrightarrow>
        validateDate Date_parse endOfToday s = Invalid ''Invalid date format'')
   \<and> (trim s \<noteq> [] \<and> Date_parse s = Some d \<and> d > endOfToday \<longrightarrow>
        validateDate Date_parse endOfToday s = Invalid ''Date cannot be in the future'')
   \<and> (validateDate Date_parse endOfToday s = Invalid m \<longrightarrow>
        AdminFilters_handleDateChange Date_parse endOfToday f s = (f, [Toast m ''error''])
        \<and> step Date_parse endOfToday app (DateChanged s)
            = app\<lparr> effects := effects app @ [Toast m ''error''] \<rparr>)"
  by (auto simp: validateDate_def AdminFilters_handleDateChange_def filterEvent_def emit_def
      trim_Nil)

theorem date_gate_witness:
  "trim ''2999-12-31'' \<noteq> [] \<and> sampleDate ''2999-12-31'' = Some 32503593600000
   \<and> 32503593600000 > sampleEndOfToday
   \<and> validateDate sampleDate sampleEndOfToday ''2999-12-31'' = Invalid ''Date cannot be in the future''
   \<and> step sampleDate sampleEndOfToday AdminApp (DateChanged ''2999-12-31'')
        = AdminApp\<lparr> effects := effects AdminApp
             @ [Toast ''Date cannot be in the future'' ''error''] \<rparr>
   \<and> trim ''tomorrow'' \<noteq> [] \<and> sampleDate ''tomorrow'' = None
   \<and> validateDate sampleDate sampleEndOfToday ''tomorrow'' = Invalid ''Invalid date format''"
proof -
  have a: "trim ''2999-12-31'' \<noteq> []" "trim ''tomorrow'' \<noteq> []"
    by (simp_all add: trim_def isWhiteSpace_def)
  have b: "sampleDate ''2999-12-31'' = Some 32503593600000" "sampleDate ''tomorrow'' = None"
    by (simp_all add: sampleDate_def)
  have c: "32503593600000 > sampleEndOfToday"
    by (simp add: sampleEndOfToday_def)
  from a b c
    date_gate [of sampleDate sampleEndOfToday "''2999-12-31''" 32503593600000
      "''Date cannot be in the future''" emptyFilters AdminApp]
    date_gate [of sampleDate sampleEndOfToday "''tomorrow''" 0 "[]" emptyFilters AdminApp]
  show ?thesis by simp
qed

section \<open>Properties of the entry form\<close>

lemma tldRegex_test_iff: "tldRegex_test h \<longleftrightarrow> endsWithExtension h"
proof
  assume "tldRegex_test h"
  then obtain i where i: "i < length h" "h ! i = CHR ''.''" "2 \<le> length (drop (Suc i) h)"
      "list_all isAsciiLetter (drop (Suc i) h)"
    by (auto simp: tldRegex_test_def list_ex_iff)
  have "h = take i h @ ''.'' @ drop (Suc i) h"
    using id_take_nth_drop [OF i(1)] i(2) by simp
  with i show "endsWithExtension h"
    unfolding endsWithExtension_def by blast
next
  assume "endsWithExtension h"
  then obtain pre ext where h: "h = pre @ ''.'' @ ext" "2 \<le> length ext" "list_all isAsciiLetter ext"
    unfolding endsWithExtension_def by blast
  then have "length pre < length h" "h ! length pre = CHR ''.''" "drop (Suc (length pre)) h = ext"
    by (simp_all add: nth_append)
  with h show "tldRegex_test h"
    unfolding tldRegex_test_def list_ex_iff by (intro bexI [of _ "length pre"]) auto
qed

lemma validateUrl_blank: "trim u = [] \<Longrightarrow> validateUrl P u = InvalidUrl ''URL is required''"
  by (simp add: validateUrl_def)

lemma validateUrl_nonblank:
  "trim u \<noteq> [] \<Longrightarrow>
   validateUrl P u =
     (case P (normalizedUrl u) of
        None \<Rightarrow> InvalidUrl ''Invalid URL format''
      | Some h \<Rightarrow> if h = [] then InvalidUrl ''Invalid URL format''
                  else if \<not> endsWithExtension h then InvalidUrl ''URL must have a valid domain extension''
                  else ValidUrl (normalizedUrl u))"
proof -
  assume ne: "trim u \<noteq> []"
  then have "u \<noteq> []"
    using trim_Nil by blast
  moreover have "(if \<not> startsWith (trim u) ''http://'' \<and> \<not> startsWith (trim u) ''https://''
                  then ''https://'' @ trim u else trim u) = normalizedUrl u"
    unfolding normalizedUrl_def by simp
  ultimately show ?thesis
    unfolding validateUrl_def Let_def using ne
    by (simp only: tldRegex_test_iff if_False simp_thms split: option.splits)
qed

lemma endsWithExtension_Nil: "\<not> endsWithExtension []"
  by (simp add: endsWithExtension_def)

lemma normalizedUrl_blank: "trim u = [] \<Longrightarrow> normalizedUrl u = ''https://''"
  by (simp add: normalizedUrl_def startsWith_def)

lemma validateUrl_iff:
  assumes "P ''https://'' = None"
  shows "url_valid (validateUrl P u) \<longleftrightarrow> (\<exists>h. P (normalizedUrl u) = Some h \<and> endsWithExtension h)"
proof (cases "trim u = []")
  case True
  with assms show ?thesis
    by (simp add: validateUrl_blank normalizedUrl_blank)
next
  case False
  then show ?thesis
    by (auto simp: validateUrl_nonblank endsWithExtension_Nil split: option.splits)
qed

lemma validateUrl_valid_result:
  "url_valid (validateUrl P u) \<Longrightarrow> validateUrl P u = ValidUrl (normalizedUrl u)"
  by (cases "trim u = []")
    (auto simp: validateUrl_blank validateUrl_nonblank split: option.splits if_splits)

lemma invalid_url_form:
  assumes "\<not> url_valid (validateUrl P (url d))"
  shows "\<not> form_valid (validateEntryForm P d)"
    and "\<exists>m. (''url'', m) \<in> set (errors (validateEntryForm P d))"
proof -
  from assms obtain m where m: "validateUrl P (url d) = InvalidUrl m"
    by (cases "validateUrl P (url d)") auto
  show "\<not> form_valid (validateEntryForm P d)"
    by (simp add: validateEntryForm_def Let_def m)
  show "\<exists>m. (''url'', m) \<in> set (errors (validateEntryForm P d))"
    by (simp add: validateEntryForm_def Let_def m)
qed

lemma handleAddEntry_invalid:
  "\<not> form_valid (validateEntryForm P (formObject ff)) \<Longrightarrow>
   handleAddEntry P ff draws = [ShowFieldErrors (errors (validateEntryForm P (formObject ff)))]"
  by (simp add: handleAddEntry_def Let_def)

lemma handleSubmit_invalid:
  "\<not> form_valid (validateEntryForm P (formObject ff)) \<Longrightarrow>
   handleSubmit P sn rs ff draws = [ShowFieldErrors (errors (validateEntryForm P (formObject ff)))]"
  by (simp add: handleSubmit_def Let_def)

lemma url_formObject: "url (formObject ff) = fd_url ff"
  by (simp add: formObject_def)

lemma handleAddEntry_url:
  assumes "CreateEntry fd \<in> set (handleAddEntry P ff draws)"
  shows "map_of fd ''url'' = Some (Text (normalizedUrl (fd_url ff)))"
proof -
  let ?v = "validateEntryForm P (formObject ff)"
  have fv: "form_valid ?v"
  proof (rule ccontr)
    assume "\<not> form_valid ?v"
    then have "handleAddEntry P ff draws = [ShowFieldErrors (errors ?v)]"
      by (rule handleAddEntry_invalid)
    with assms show False by simp
  qed
  then have uv: "url_valid (validateUrl P (fd_url ff))"
    using invalid_url_form(1) [of P "formObject ff"] by (auto simp: url_formObject)
  then have "validateUrl P (fd_url ff) = ValidUrl (normalizedUrl (fd_url ff))"
    by (rule validateUrl_valid_result)
  then have u: "url (data ?v) = normalizedUrl (fd_url ff)"
    by (simp add: validateEntryForm_def Let_def url_formObject)
  from assms fv show ?thesis
    by (auto simp: handleAddEntry_def Let_def u split: option.splits prod.splits if_splits)
qed

text \<open>
  The validation rule. The platform's URL parser is a parameter, of which three facts are
  assumed: it rejects the bare scheme \<open>https://\<close>, it gives \<open>https://google.com\<close> the
  hostname \<open>google.com\<close>, and it rejects \<open>https://not a url\<close>. Then for every string the
  URL validation accepts exactly when the trimmed and prefixed string parses with a hostname
  that ends with a dot and at least two letters, and what it accepts it returns in that
  normalised form. When the URL of a form is not accepted, the form's validation reports
  an error for the field \<open>url\<close>, and neither the add handler nor the edit handler sends a
  request.
\<close>

lemma validateUrl_rule:
  assumes scheme: "URL_hostname ''https://'' = None"
    and google: "URL_hostname ''https://google.com'' = Some ''google.com''"
    and nota: "URL_hostname ''https://not a url'' = None"
  shows "(url_valid (validateUrl URL_hostname u) \<longleftrightarrow>
            (\<exists>h. URL_hostname (normalizedUrl u) = Some h \<and> endsWithExtension h))
    \<and> (url_valid (validateUrl URL_hostname u) \<longrightarrow>
          validateUrl URL_hostname u = ValidUrl (normalizedUrl u))
    \<and> (\<not> url_valid (validateUrl URL_hostname (fd_url ff)) \<longrightarrow>
          (\<exists>m. (''url'', m) \<in> set (errors (validateEntryForm URL_hostname (formObject ff))))
          \<and> handleAddEntry URL_hostname ff draws
               = [ShowFieldErrors (errors (validateEntryForm URL_hostname (formObject ff)))]
          \<and> handleSubmit URL_hostname sn rs ff draws
               = [ShowFieldErrors (errors (validateEntryForm URL_hostname (formObject ff)))]
          \<and> filter is_request (handleAddEntry URL_hostname ff draws) = []
          \<and> filter is_request (handleSubmit URL_hostname sn rs ff draws) = [])
    \<and> validateUrl URL_hostname ''google.com'' = ValidUrl ''https://google.com''
    \<and> (fd_url ff = ''google.com'' \<longrightarrow>
          (\<forall>fd. CreateEntry fd \<in> set (handleAddEntry URL_hostname ff draws) \<longrightarrow>
                map_of fd ''url'' = Some (Text ''https://google.com'')))
    \<and> validateUrl URL_hostname ''not a url'' = InvalidUrl ''Invalid URL format''
    \<and> (fd_url ff = ''not a url'' \<longrightarrow>
          filter is_request (handleAddEntry URL_hostname ff draws) = [])"
proof -
  have tg: "trim ''google.com'' = ''google.com''" and tn: "trim ''not a url'' = ''not a url''"
    by (simp_all add: trim_def isWhiteSpace_def)
  have ng: "normalizedUrl ''google.com'' = ''https://google.com''"
    and nn: "normalizedUrl ''not a url'' = ''https://not a url''"
    by (simp_all add: normalizedUrl_def tg tn startsWith_def)
  have ext: "endsWithExtension ''google.com''"
    unfolding tldRegex_test_iff [symmetric]
    by (simp add: tldRegex_test_def isAsciiLetter_def upt_rec)
  have a: "url_valid (validateUrl URL_hostname u) \<longleftrightarrow>
            (\<exists>h. URL_hostname (normalizedUrl u) = Some h \<and> endsWithExtension h)"
    using scheme by (rule validateUrl_iff [of URL_hostname u])
  have b: "url_valid (validateUrl URL_hostname u) \<longrightarrow>
          validateUrl URL_hostname u = ValidUrl (normalizedUrl u)"
    by (simp add: validateUrl_valid_result)
  have c: "\<not> url_valid (validateUrl URL_hostname (fd_url ff)) \<longrightarrow>
          (\<exists>m. (''url'', m) \<in> set (errors (validateEntryForm URL_hostname (formObject ff))))
          \<and> handleAddEntry URL_hostname ff draws
               = [ShowFieldErrors (errors (validateEntryForm URL_hostname (formObject ff)))]
          \<and> handleSubmit URL_hostname sn rs ff draws
               = [ShowFieldErrors (errors (validateEntryForm URL_hostname (formObject ff)))]
          \<and> filter is_request (handleAddEntry URL_hostname ff draws) = []
          \<and> filter is_request (handleSubmit URL_hostname sn rs ff draws) = []"
  proof
    assume inv: "\<not> url_valid (validateUrl URL_hostname (fd_url ff))"
    then have i: "\<not> url_valid (validateUrl URL_hostname (url (formObject ff)))"
      by (simp add: url_formObject)
    note fv = invalid_url_form(1) [OF i] and er = invalid_url_form(2) [OF i]
    from er show "(\<exists>m. (''url'', m) \<in> set (errors (validateEntryForm URL_hostname (formObject ff))))
          \<and> handleAddEntry URL_hostname ff draws
               = [ShowFieldErrors (errors (validateEntryForm URL_hostname (formObject ff)))]
          \<and> handleSubmit URL_hostname sn rs ff draws
               = [ShowFieldErrors (errors (validateEntryForm URL_hostname (formObject ff)))]
          \<and> filter is_request (handleAddEntry URL_hostname ff draws) = []
          \<and> filter is_request (handleSubmit URL_hostname sn rs ff draws) = []"
      by (simp add: handleAddEntry_invalid [OF fv] handleSubmit_invalid [OF fv])
  qed
  have vg: "url_valid (validateUrl URL_hostname ''google.com'')"
    using validateUrl_iff [of URL_hostname "''google.com''"] scheme google ext by (simp add: ng)
  have d: "validateUrl URL_hostname ''google.com'' = ValidUrl ''https://google.com''"
    using validateUrl_valid_result [OF vg] by (simp add: ng)
  have e: "fd_url ff = ''google.com'' \<longrightarrow>
          (\<forall>fd. CreateEntry fd \<in> set (handleAddEntry URL_hostname ff draws) \<longrightarrow>
                map_of fd ''url'' = Some (Text ''https://google.com''))"
    using handleAddEntry_url [of _ URL_hostname ff draws] by (auto simp: ng)
  have f: "validateUrl URL_hostname ''not a url'' = InvalidUrl ''Invalid URL format''"
    using nota validateUrl_nonblank [of "''not a url''" URL_hostname] by (simp add: tn nn)
  have g: "fd_url ff = ''not a url'' \<longrightarrow>
          filter is_request (handleAddEntry URL_hostname ff draws) = []"
    using c f by simp
  from a b c d e f g show ?thesis by blast
qed

lemma validateUrl_rule_example:
  "sampleHostname ''https://'' = None
   \<and> sampleHostname ''https://google.com'' = Some ''google.com''
   \<and> sampleHostname ''https://not a url'' = None
   \<and> validateUrl sampleHostname ''google.com'' = ValidUrl ''https://google.com''
   \<and> validateUrl sampleHostname ''not a url'' = InvalidUrl ''Invalid URL format''
   \<and> fd_url (sampleForm\<lparr> fd_url := ''not a url'' \<rparr>) = ''not a url''
   \<and> filter is_request (handleAddEntry sampleHostname (sampleForm\<lparr> fd_url := ''not a url'' \<rparr>) [])
        = []"
proof -
  have h: "sampleHostname ''https://'' = None"
    "sampleHostname ''https://google.com'' = Some ''google.com''"
    "sampleHostname ''https://not a url'' = None"
    by (simp_all add: sampleHostname_def)
  from h validateUrl_rule [OF h, of "''google.com''" "sampleForm\<lparr> fd_url := ''not a url'' \<rparr>" "[]"]
  show ?thesis by simp
qed

text \<open>
  What the two submit handlers send for a form that passed validation. The add handler
  sends the URL in its normalised form; the edit handler sends the URL as it was typed.
  With an image attached either request waits for the simulated progress to reach 90,
  which it does once the random values add up to 6.
\<close>

lemma validateEntryForm_data:
  assumes "form_valid (validateEntryForm P d)"
  shows "data (validateEntryForm P d) = d\<lparr> url := normalizedUrl (url d) \<rparr>"
proof -
  from assms have "url_valid (validateUrl P (url d))"
    using invalid_url_form(1) [of P d] by blast
  then have "validateUrl P (url d) = ValidUrl (normalizedUrl (url d))"
    by (rule validateUrl_valid_result)
  then show ?thesis
    by (simp add: validateEntryForm_def Let_def)
qed

lemma handleAddEntry_valid:
  assumes "form_valid (validateEntryForm P (formObject ff))"
  shows "handleAddEntry P ff draws =
     ShowUploadProgress True #
       (case imageFile (formObject ff) of
          None \<Rightarrow>
            [CreateEntry
               [(''name'', Text (fd_name ff)), (''category'', Text (fd_category ff)),
                (''url'', Text (normalizedUrl (fd_url ff))),
                (''description'', Text (fd_description ff))]]
        | Some f \<Rightarrow>
            map ProgressShown (fst (simulateUploadProgress 0 draws)) @
              (if snd (simulateUploadProgress 0 draws) then
                 [CreateEntry
                    [(''name'', Text (fd_name ff)), (''category'', Text (fd_category ff)),
                     (''url'', Text (normalizedUrl (fd_url ff))),
                     (''description'', Text (fd_description ff)), (''image'', Blob f)]]
               else []))"
proof -
  have d: "data (validateEntryForm P (formObject ff))
             = (formObject ff)\<lparr> url := normalizedUrl (fd_url ff) \<rparr>"
    using validateEntryForm_data [OF assms] by (simp add: url_formObject)
  have f: "name (formObject ff) = fd_name ff" "category (formObject ff) = fd_category ff"
    "description (formObject ff) = fd_description ff"
    by (simp_all add: formObject_def)
  show ?thesis
    unfolding handleAddEntry_def Let_def d
    using assms by (simp add: f split_beta split: option.splits)
qed

lemma handleSubmit_valid:
  assumes "form_valid (validateEntryForm P (formObject ff))"
  shows "handleSubmit P sn rs ff draws =
     ShowUploadProgress True #
       (case imageFile (formObject ff) of
          None \<Rightarrow>
            [UpdateEntry
               [(''sheetName'', Text sn), (''rowSerial'', Text rs),
                (''name'', Text (fd_name ff)), (''category'', Text (fd_category ff)),
                (''url'', Text (fd_url ff)), (''description'', Text (fd_description ff))]]
        | Some f \<Rightarrow>
            map ProgressShown (fst (simulateUploadProgress 0 draws)) @
              (if snd (simulateUploadProgress 0 draws) then
                 [UpdateEntry
                    [(''sheetName'', Text sn), (''rowSerial'', Text rs),
                     (''name'', Text (fd_name ff)), (''category'', Text (fd_category ff)),
                     (''url'', Text (fd_url ff)), (''description'', Text (fd_description ff)),
                     (''image'', Blob f)]]
               else []))"
proof -
  have f: "name (formObject ff) = fd_name ff" "category (formObject ff) = fd_category ff"
    "description (formObject ff) = fd_description ff" "url (formObject ff) = fd_url ff"
    by (simp_all add: formObject_def)
  show ?thesis
    unfolding handleSubmit_def Let_def
    using assms by (simp add: f split_beta split: option.splits)
qed

lemma simulateUploadProgress_fires:
  assumes "\<forall>r\<in>set draws. 0 \<le> r" and "progress < 90" and "90 \<le> progress + 15 * sum_list draws"
  shows "snd (simulateUploadProgress progress draws)"
  using assms
proof (induction draws arbitrary: progress)
  case Nil
  then show ?case by simp
next
  case (Cons r draws)
  show ?case
  proof (cases "progress + r * 15 \<ge> 90")
    case True
    then show ?thesis by simp
  next
    case False
    then have lt: "progress + r * 15 < 90"
      by simp
    from Cons.prems have rest: "\<forall>r\<in>set draws. 0 \<le> r"
      and enough: "90 \<le> (progress + r * 15) + 15 * sum_list draws"
      by (simp_all add: algebra_simps)
    from False Cons.IH [OF rest lt enough] show ?thesis
      by (simp add: split_beta)
  qed
qed

lemma samplePlainForm_valid:
  "validateEntryForm sampleHostname (formObject samplePlainForm) =
     \<lparr> form_valid = True, errors = [],
       data = \<lparr> name = ''Google'', category = ''Search'', url = ''https://google.com'',
                description = ''A web search engine'', imageFile = None \<rparr> \<rparr>"
proof -
  have t: "trim ''Google'' = ''Google''" "trim ''Search'' = ''Search''"
    "trim ''google.com'' = ''google.com''" "trim ''A web search engine'' = ''A web search engine''"
    by (simp_all add: trim_def isWhiteSpace_def)
  have u: "validateUrl sampleHostname ''google.com'' = ValidUrl ''https://google.com''"
    by (simp add: validateUrl_def t startsWith_def sampleHostname_def tldRegex_test_def
        isAsciiLetter_def upt_rec)
  have fo: "formObject samplePlainForm =
     \<lparr> name = ''Google'', category = ''Search'', url = ''google.com'',
       description = ''A web search engine'', imageFile = None \<rparr>"
    by (simp add: formObject_def samplePlainForm_def sampleForm_def)
  show ?thesis
    unfolding fo
    by (simp add: validateEntryForm_def Let_def u t
        validateWebsiteName_def validateRequired_def validateLength_def validateDescription_def)
qed

text \<open>
  Claim C3, at a submit of the edit form with the fields \<open>Google\<close>, \<open>Search\<close>,
  \<open>google.com\<close> and a description, for the entry with serial 1 of the sheet \<open>Search\<close>, no
  new image chosen. The validation accepts the URL and returns it as
  \<open>https://google.com\<close>, and the add form sends exactly that in its create request. The
  edit form sends its update request with the URL \<open>google.com\<close> as typed, so that is what
  gets stored.
\<close>

theorem edit_submit_sends_raw_url:
  "validateUrl sampleHostname ''google.com'' = ValidUrl ''https://google.com''
   \<and> url (data (validateEntryForm sampleHostname (formObject samplePlainForm)))
        = ''https://google.com''
   \<and> handleAddEntry sampleHostname samplePlainForm [] =
        [ShowUploadProgress True,
         CreateEntry
           [(''name'', Text ''Google''), (''category'', Text ''Search''),
            (''url'', Text ''https://google.com''),
            (''description'', Text ''A web search engine'')]]
   \<and> handleSubmit sampleHostname ''Search'' ''1'' samplePlainForm [] =
        [ShowUploadProgress True,
         UpdateEntry
           [(''sheetName'', Text ''Search''), (''rowSerial'', Text ''1''),
            (''name'', Text ''Google''), (''category'', Text ''Search''),
            (''url'', Text ''google.com''),
            (''description'', Text ''A web search engine'')]]"
proof -
  have t: "trim ''google.com'' = ''google.com''"
    by (simp add: trim_def isWhiteSpace_def)
  have u: "validateUrl sampleHostname ''google.com'' = ValidUrl ''https://google.com''"
    by (simp add: validateUrl_def t startsWith_def sampleHostname_def tldRegex_test_def
        isAsciiLetter_def upt_rec)
  have fo: "formObject samplePlainForm =
     \<lparr> name = ''Google'', category = ''Search'', url = ''google.com'',
       description = ''A web search engine'', imageFile = None \<rparr>"
    by (simp add: formObject_def samplePlainForm_def sampleForm_def)
  have d: "url (data (validateEntryForm sampleHostname (formObject samplePlainForm)))
        = ''https://google.com''"
    by (simp add: samplePlainForm_valid)
  have a: "handleAddEntry sampleHostname samplePlainForm [] =
        [ShowUploadProgress True,
         CreateEntry
           [(''name'', Text ''Google''), (''category'', Text ''Search''),
            (''url'', Text ''https://google.com''),
            (''description'', Text ''A web search engine'')]]"
    unfolding handleAddEntry_def Let_def samplePlainForm_valid
    by (simp add: fo)
  have e: "handleSubmit sampleHostname ''Search'' ''1'' samplePlainForm [] =
        [ShowUploadProgress True,
         UpdateEntry
           [(''sheetName'', Text ''Search''), (''rowSerial'', Text ''1''),
            (''name'', Text ''Google''), (''category'', Text ''Search''),
            (''url'', Text ''google.com''),
            (''description'', Text ''A web search engine'')]]"
    unfolding handleSubmit_def Let_def samplePlainForm_valid
    by (simp add: fo)
  from u d a e show ?thesis by blast
qed

section \<open>Properties of the upload progress\<close>

text \<open>
  Whatever non-negative values the random source returns, the progress shown never goes
  down, never exceeds 90, and is exactly 90 when the callback that sends the request is
  scheduled.
\<close>

lemma simulateUploadProgress_bounds:
  assumes "\<forall>r\<in>set draws. 0 \<le> r" and "progress \<le> 90"
  shows "sorted (progress # fst (simulateUploadProgress progress draws))
         \<and> (\<forall>v\<in>set (fst (simulateUploadProgress progress draws)). v \<le> 90)
         \<and> (snd (simulateUploadProgress progress draws) \<longrightarrow>
              fst (simulateUploadProgress progress draws) \<noteq> []
              \<and> last (fst (simulateUploadProgress progress draws)) = 90)"
  using assms
proof (induction draws arbitrary: progress)
  case Nil
  then show ?case by simp
next
  case (Cons r draws)
  show ?case
  proof (cases "progress + r * 15 \<ge> 90")
    case True
    with Cons.prems show ?thesis by simp
  next
    case False
    from Cons.prems have r: "0 \<le> r" and rest: "\<forall>r\<in>set draws. 0 \<le> r"
      by simp_all
    from False have le: "progress + r * 15 \<le> 90"
      by simp
    note IH = Cons.IH [OF rest le]
    from r have up: "progress \<le> progress + r * 15"
      by simp
    from False IH up show ?thesis
      by (auto simp: split_beta)
  qed
qed

lemma simulateUploadProgress_half: "simulateUploadProgress 0 (replicate 12 (1/2)) =
   ([15/2, 15, 45/2, 30, 75/2, 45, 105/2, 60, 135/2, 75, 165/2, 90], True)"
  by (simp add: numeral_eq_Suc)

text \<open>
  Claim C6, at a submit of the add-entry form with valid fields and an image attached,
  \<open>Math.random()\<close> returning 0.5 at every tick: the progress shown rises in steps of 7.5
  and ends at 90, not at 100 (the fraction 1.0); only then the create request is sent, with
  the image in it. The progress comes from the random source, not from the upload.
\<close>

theorem upload_progress_stops_at_90:
  "handleAddEntry sampleHostname sampleForm (replicate 12 (1/2)) =
     [ShowUploadProgress True,
      ProgressShown (15/2), ProgressShown 15, ProgressShown (45/2), ProgressShown 30,
      ProgressShown (75/2), ProgressShown 45, ProgressShown (105/2), ProgressShown 60,
      ProgressShown (135/2), ProgressShown 75, ProgressShown (165/2), ProgressShown 90,
      CreateEntry
        [(''name'', Text ''Google''), (''category'', Text ''Search''),
         (''url'', Text ''https://google.com''), (''description'', Text ''A web search engine''),
         (''image'', Blob \<lparr> ftype = ''image/png'', fsize = 2048 \<rparr>)]]"
proof -
  have t: "trim ''Google'' = ''Google''" "trim ''Search'' = ''Search''"
    "trim ''google.com'' = ''google.com''" "trim ''A web search engine'' = ''A web search engine''"
    by (simp_all add: trim_def isWhiteSpace_def)
  have u: "validateUrl sampleHostname ''google.com'' = ValidUrl ''https://google.com''"
    by (simp add: validateUrl_def t startsWith_def sampleHostname_def tldRegex_test_def
        isAsciiLetter_def upt_rec)
  have fo: "formObject sampleForm =
     \<lparr> name = ''Google'', category = ''Search'', url = ''google.com'',
       description = ''A web search engine'',
       imageFile = Some \<lparr> ftype = ''image/png'', fsize = 2048 \<rparr> \<rparr>"
    by (simp add: formObject_def sampleForm_def)
  have v: "validateEntryForm sampleHostname (formObject sampleForm) =
     \<lparr> form_valid = True, errors = [],
       data = \<lparr> name = ''Google'', category = ''Search'', url = ''https://google.com'',
                description = ''A web search engine'',
                imageFile = Some \<lparr> ftype = ''image/png'', fsize = 2048 \<rparr> \<rparr> \<rparr>"
    unfolding fo
    by (simp add: validateEntryForm_def Let_def u t
        validateWebsiteName_def validateRequired_def validateLength_def validateDescription_def
        validateImageFile_def)
  show ?thesis
    unfolding handleAddEntry_def Let_def v
    by (simp add: fo simulateUploadProgress_half)
qed

section \<open>Properties of the list fetch\<close>

lemma single_fetch_emit:
  assumes "single_fetch app" and "\<forall>e\<in>set es. \<not> isGetEntries e \<and> \<not> isListDone e"
  shows "single_fetch (emit es app)"
proof -
  from assms(2) have "filter isGetEntries es = []" "filter isListDone es = []"
    by (simp_all add: filter_empty_conv)
  with assms(1) show ?thesis
    by (simp add: single_fetch_def emit_def)
qed

lemma single_fetch_loadEntries: "single_fetch app \<Longrightarrow> single_fetch (loadEntries app)"
  by (simp add: single_fetch_def loadEntries_def)

lemma single_fetch_page:
  "single_fetch app \<Longrightarrow> single_fetch (app\<lparr> app_currentPage := pg \<rparr>)"
  by (simp add: single_fetch_def)

lemma single_fetch_view:
  "single_fetch app \<Longrightarrow> single_fetch (app\<lparr> currentView := v \<rparr>)"
  by (simp add: single_fetch_def)

lemma single_fetch_filters:
  "single_fetch app \<Longrightarrow> single_fetch (app\<lparr> webFilters := f \<rparr>)"
  by (simp add: single_fetch_def)

lemma single_fetch_modal:
  "single_fetch app \<Longrightarrow> single_fetch (app\<lparr> deleteModal := m \<rparr>)"
  by (simp add: single_fetch_def)

lemma single_fetch_deleteCalls:
  "single_fetch app \<Longrightarrow> single_fetch (app\<lparr> deleteCalls := n \<rparr>)"
  by (simp add: single_fetch_def)

lemma single_fetch_other_loads:
  "single_fetch app \<Longrightarrow> single_fetch (loadDashboardStats app)"
  "single_fetch app \<Longrightarrow> single_fetch (loadDashboardStats_settled app sout)"
  "single_fetch app \<Longrightarrow> single_fetch (loadCategories app)"
  "single_fetch app \<Longrightarrow> single_fetch (loadCategories_settled app cout)"
  "single_fetch app \<Longrightarrow> single_fetch (renderCategoriesList app)"
  by (auto simp: single_fetch_def loadDashboardStats_def loadDashboardStats_settled_def
      loadCategories_def loadCategories_settled_def renderCategoriesList_def emit_def Let_def
      split: stats_outcome.splits categories_outcome.splits option.splits)

lemma single_fetch_deliver:
  assumes "single_fetch app" and "\<forall>e\<in>set es. \<not> isGetEntries e \<and> \<not> isListDone e"
  shows "single_fetch (deliver es app)"
  using assms
proof (induction es arbitrary: app)
  case Nil
  then show ?case by simp
next
  case (Cons e es)
  from Cons.prems have e: "\<forall>x\<in>set [e]. \<not> isGetEntries x \<and> \<not> isListDone x"
    and es: "\<forall>x\<in>set es. \<not> isGetEntries x \<and> \<not> isListDone x"
    by simp_all
  have em: "single_fetch (emit [e] app)"
    using Cons.prems(1) e by (rule single_fetch_emit)
  have "single_fetch (case e of FiltersChange fv \<Rightarrow> handleWebFiltersChange (emit [e] app)
                        | _ \<Rightarrow> emit [e] app)"
    using em
    by (cases e) (simp_all add: handleWebFiltersChange_def single_fetch_loadEntries single_fetch_page)
  then show ?case
    using es by (simp add: Cons.IH)
qed

lemma single_fetch_filterEvent:
  assumes "single_fetch app" and "\<forall>e\<in>set (snd r). \<not> isGetEntries e \<and> \<not> isListDone e"
  shows "single_fetch (filterEvent r app)"
  unfolding filterEvent_def
  using single_fetch_filters [OF assms(1)] assms(2) by (rule single_fetch_deliver)

lemma single_fetch_try:
  "single_fetch app \<Longrightarrow> single_fetch (loadEntries_try app out)"
  by (auto simp: loadEntries_try_def loadEntries_catch_def single_fetch_def emit_def Let_def
      split: outcome.splits option.splits)

lemma loadEntries_try_fields:
  "isLoading (loadEntries_try app out) = isLoading app"
  "listFetches (loadEntries_try app out) = listFetches app"
  "filter isGetEntries (effects (loadEntries_try app out)) = filter isGetEntries (effects app)"
  "filter isListDone (effects (loadEntries_try app out)) = filter isListDone (effects app)"
  by (auto simp: loadEntries_try_def loadEntries_catch_def emit_def Let_def
      split: outcome.splits option.splits)

lemma single_fetch_settled:
  assumes "single_fetch app" and "listFetches app \<noteq> 0"
  shows "single_fetch (loadEntries_settled app out)"
  using assms
  by (simp add: loadEntries_settled_def Let_def single_fetch_def loadEntries_try_fields
      split: if_splits)

lemma single_fetch_step:
  assumes "single_fetch app"
  shows "single_fetch (step Date_parse endOfToday app ev)"
proof (cases ev)
  case (SearchCommitted v)
  then show ?thesis
    using assms
    by (auto intro!: single_fetch_filterEvent
        simp: AdminFilters_handleSearchChange_def split: validation.splits)
next
  case (DateChanged v)
  then show ?thesis
    using assms
    by (auto intro!: single_fetch_filterEvent
        simp: AdminFilters_handleDateChange_def split: validation.splits)
next
  case (CategoryChanged v)
  then show ?thesis
    using assms
    by (auto intro!: single_fetch_filterEvent simp: AdminFilters_handleCategoryChange_def)
next
  case FiltersCleared
  then show ?thesis
    using assms
    by (auto intro!: single_fetch_filterEvent simp: AdminFilters_clearAllFilters_def)
next
  case (PageChanged pg)
  then show ?thesis
    using assms by (simp add: handleWebPageChange_def single_fetch_loadEntries single_fetch_page)
next
  case (ViewSwitched v)
  then show ?thesis
    using assms
    by (simp add: switchView_def Let_def single_fetch_loadEntries single_fetch_view
        single_fetch_other_loads)
next
  case RefreshClicked
  then show ?thesis
    using assms
    by (simp add: refreshCurrentView_def single_fetch_loadEntries single_fetch_emit
        single_fetch_other_loads)
next
  case EntryAdded
  then show ?thesis
    using assms
    by (simp add: switchView_def Let_def single_fetch_loadEntries single_fetch_view
        single_fetch_emit)
next
  case EntrySaved
  then show ?thesis
    using assms
    by (simp add: refreshCurrentView_def single_fetch_loadEntries single_fetch_emit
        single_fetch_other_loads)
next
  case (ListSettled out)
  then show ?thesis
    using assms by (simp add: single_fetch_settled)
next
  case (DeleteClicked sn sr img)
  then show ?thesis
    using assms
    by (simp add: handleDeleteEntry_def openWithCallback_def single_fetch_emit single_fetch_modal
        split: option.splits)
next
  case (CategoryDeleteClicked nm)
  then show ?thesis
    using assms
    by (simp add: handleDeleteCategory_def openWithCallback_def single_fetch_emit
        single_fetch_modal)
next
  case ConfirmClicked
  then show ?thesis
    using assms
    by (simp add: confirmDelete_def closeModal_def single_fetch_emit single_fetch_modal
        single_fetch_deleteCalls split: option.splits delete_callback.splits)
next
  case ModalDismissed
  then show ?thesis
    using assms by (simp add: closeModal_def single_fetch_emit single_fetch_modal)
next
  case (DeleteSettled out)
  then show ?thesis
    using assms
    by (simp add: deleteEntry_settled_def Let_def single_fetch_emit single_fetch_loadEntries
        single_fetch_deleteCalls split: outcome.splits)
next
  case Initialised
  then show ?thesis
    using assms
    by (simp add: initialise_def loadInitialData_def single_fetch_emit single_fetch_other_loads)
next
  case (StatsSettled out)
  then show ?thesis
    using assms by (simp add: single_fetch_other_loads)
next
  case (CategoriesSettled out)
  then show ?thesis
    using assms by (simp add: single_fetch_other_loads)
qed

lemma single_fetch_run:
  "single_fetch app \<Longrightarrow> single_fetch (run Date_parse endOfToday app evs)"
  unfolding run_def
  by (induction evs arbitrary: app) (simp_all add: single_fetch_step)

lemma single_fetch_AdminApp: "single_fetch AdminApp"
  by (simp add: single_fetch_def AdminApp_def)

text \<open>
  Claim C4, which fails as stated: switching to the list view and then to the dashboard
  leaves two requests to the list endpoint pending at once, the one of \<open>loadEntries\<close> and
  the one of \<open>loadDashboardStats\<close>, which has no guard.
\<close>

theorem single_list_fetch_counterexample:
  "listFetches (run sampleDate sampleEndOfToday AdminApp
                  [ViewSwitched ''webList'', ViewSwitched ''dashboard'']) = 1
   \<and> statsLoads (run sampleDate sampleEndOfToday AdminApp
                  [ViewSwitched ''webList'', ViewSwitched ''dashboard'']) = 1
   \<and> filter isListRequest
        (effects (run sampleDate sampleEndOfToday AdminApp
                    [ViewSwitched ''webList'', ViewSwitched ''dashboard'']))
      = [Request (GetEntries \<lparr> p_page = 1, p_size = 12,
                               p_filters = getAPIParams emptyFilters \<rparr>),
         Request GetAllEntries]"
  by (simp add: run_def switchView_def loadEntries_def loadDashboardStats_def emit_def
      AdminApp_def Let_def)

text \<open>
  Claim C4 as amended. In every state the application reaches from its initial state, by
  any sequence of events, at most one list fetch of \<open>loadEntries\<close> is suspended, the loading
  flag is set exactly while one is, and every request of \<open>loadEntries\<close> in the trace but the
  suspended one has finished. While the flag is set, \<open>loadEntries\<close> does nothing: a filter
  change or a page change only sets the current page, makes no request and leaves nothing
  behind to be replayed. While it is not set, \<open>loadEntries\<close> sets the flag, shows the
  loading indicator and makes the request. When the fetch settles, successfully or not,
  the flag is cleared and no request is made. The statistics load of the dashboard is
  outside this guard: whatever the flag, it requests the list and the categories, and it
  leaves the flag and the count of suspended fetches of \<open>loadEntries\<close> alone.
\<close>

theorem single_list_fetch:
  "listFetches (run Date_parse endOfToday AdminApp evs) \<le> 1
   \<and> (isLoading (run Date_parse endOfToday AdminApp evs)
        \<longleftrightarrow> listFetches (run Date_parse endOfToday AdminApp evs) = 1)
   \<and> length (filter isGetEntries (effects (run Date_parse endOfToday AdminApp evs)))
        = length (filter isListDone (effects (run Date_parse endOfToday AdminApp evs)))
          + listFetches (run Date_parse endOfToday AdminApp evs)
   \<and> (isLoading app \<longrightarrow>
         loadEntries app = app
         \<and> handleWebFiltersChange app = app\<lparr> app_currentPage := 1 \<rparr>
         \<and> handleWebPageChange app pg = app\<lparr> app_currentPage := pg \<rparr>)
   \<and> (\<not> isLoading app \<longrightarrow>
         loadEntries app =
           app\<lparr> isLoading := True,
                effects := effects app @
                  [ShowWebLoading True,
                   Request (GetEntries \<lparr> p_page = app_currentPage app, p_size = 12,
                         p_filters = getAPIParams (webFilters app) \<rparr>)],
                listFetches := listFetches app + 1 \<rparr>)
   \<and> \<not> isLoading (loadEntries_settled app out)
   \<and> filter isGetEntries (effects (loadEntries_settled app out))
        = filter isGetEntries (effects app)
   \<and> loadDashboardStats app =
        app\<lparr> effects := effects app @ [Request GetAllEntries, Request GetCategories],
             statsLoads := statsLoads app + 1 \<rparr>"
proof -
  have "single_fetch (run Date_parse endOfToday AdminApp evs)"
    using single_fetch_AdminApp by (rule single_fetch_run)
  then have a: "listFetches (run Date_parse endOfToday AdminApp evs) \<le> 1
   \<and> (isLoading (run Date_parse endOfToday AdminApp evs)
        \<longleftrightarrow> listFetches (run Date_parse endOfToday AdminApp evs) = 1)
   \<and> length (filter isGetEntries (effects (run Date_parse endOfToday AdminApp evs)))
        = length (filter isListDone (effects (run Date_parse endOfToday AdminApp evs)))
          + listFetches (run Date_parse endOfToday AdminApp evs)"
    by (simp add: single_fetch_def split: if_splits)
  have b: "isLoading app \<longrightarrow>
         loadEntries app = app
         \<and> handleWebFiltersChange app = app\<lparr> app_currentPage := 1 \<rparr>
         \<and> handleWebPageChange app pg = app\<lparr> app_currentPage := pg \<rparr>"
    by (simp add: loadEntries_def handleWebFiltersChange_def handleWebPageChange_def)
  have c: "\<not> isLoading app \<longrightarrow>
         loadEntries app =
           app\<lparr> isLoading := True,
                effects := effects app @
                  [ShowWebLoading True,
                   Request (GetEntries \<lparr> p_page = app_currentPage app, p_size = 12,
                         p_filters = getAPIParams (webFilters app) \<rparr>)],
                listFetches := listFetches app + 1 \<rparr>"
    by (simp add: loadEntries_def)
  have d: "\<not> isLoading (loadEntries_settled app out)"
    by (simp add: loadEntries_settled_def Let_def)
  have e: "filter isGetEntries (effects (loadEntries_settled app out))
        = filter isGetEntries (effects app)"
    by (simp add: loadEntries_settled_def Let_def loadEntries_try_fields)
  have f: "loadDashboardStats app =
        app\<lparr> effects := effects app @ [Request GetAllEntries, Request GetCategories],
             statsLoads := statsLoads app + 1 \<rparr>"
    by (simp add: loadDashboardStats_def emit_def)
  from a b c d e f show ?thesis by blast
qed

lemma run_loading:
  "run sampleDate sampleEndOfToday AdminApp [ViewSwitched ''webList''] =
     AdminApp\<lparr> currentView := ''webList'', isLoading := True,
               effects := [ShowWebLoading True,
                 Request (GetEntries \<lparr> p_page = 1, p_size = 12,
                     p_filters = getAPIParams emptyFilters \<rparr>)],
               listFetches := 1 \<rparr>"
  by (simp add: run_def switchView_def loadEntries_def AdminApp_def Let_def)

theorem single_list_fetch_witness:
  "isLoading (run sampleDate sampleEndOfToday AdminApp [ViewSwitched ''webList''])
   \<and> handleWebPageChange (run sampleDate sampleEndOfToday AdminApp [ViewSwitched ''webList'']) 2
       = (run sampleDate sampleEndOfToday AdminApp [ViewSwitched ''webList''])\<lparr> app_currentPage := 2 \<rparr>
   \<and> \<not> isLoading AdminApp
   \<and> effects (loadEntries AdminApp)
       = [ShowWebLoading True,
         Request (GetEntries \<lparr> p_page = 1, p_size = 12,
             p_filters = getAPIParams emptyFilters \<rparr>)]"
proof -
  have l: "isLoading (run sampleDate sampleEndOfToday AdminApp [ViewSwitched ''webList''])"
    by (simp add: run_loading)
  have n: "\<not> isLoading AdminApp" "effects AdminApp = []" "webFilters AdminApp = emptyFilters"
    "app_currentPage AdminApp = 1"
    by (simp_all add: AdminApp_def)
  from l n
    single_list_fetch [of sampleDate sampleEndOfToday "[]"
      "run sampleDate sampleEndOfToday AdminApp [ViewSwitched ''webList'']" 2 "Rejected []"]
    single_list_fetch [of sampleDate sampleEndOfToday "[]" AdminApp 2 "Rejected []"]
  show ?thesis by simp
qed

lemma handleError_nonempty: "handleError m ''Failed to load websites'' \<noteq> []"
  by (simp add: handleError_def)

text \<open>
  Claim C5. When a list fetch fails, by rejection or by a response with
  \<open>success: false\<close>, the entries and the total stay as they were and an error toast with a
  non-empty message is shown before the loading indicator is hidden. The entries or the
  total change only on a response with \<open>success: true\<close>. A successful response without
  entries, or with none, empties the list and shows the empty state, with no error toast.
  This is what the step for a settled list fetch does whenever a fetch is suspended.
\<close>

theorem failed_fetch_keeps_results:
  "(failed out \<longrightarrow>
      entries (loadEntries_settled app out) = entries app
      \<and> totalEntries (loadEntries_settled app out) = totalEntries app
      \<and> (\<exists>m. m \<noteq> [] \<and> effects (loadEntries_settled app out)
                          = effects app @ [Toast m ''error'', ShowWebLoading False]))
   \<and> (entries (loadEntries_settled app out) \<noteq> entries app
        \<or> totalEntries (loadEntries_settled app out) \<noteq> totalEntries app
       \<longrightarrow> (\<exists>response. out = Resolved response \<and> success response))
   \<and> (success response \<and> rdata response = Some d \<and> (d_entries d = None \<or> d_entries d = Some [])
       \<longrightarrow> entries (loadEntries_settled app (Resolved response)) = []
           \<and> effects (loadEntries_settled app (Resolved response))
               = effects app @ [RenderWebEntries [], ShowWebEmptyState True, ShowWebLoading False])
   \<and> (0 < listFetches app \<longrightarrow>
        step Date_parse endOfToday app (ListSettled out) = loadEntries_settled app out)"
proof -
  have a: "failed out \<longrightarrow>
      entries (loadEntries_settled app out) = entries app
      \<and> totalEntries (loadEntries_settled app out) = totalEntries app
      \<and> (\<exists>m. m \<noteq> [] \<and> effects (loadEntries_settled app out)
                          = effects app @ [Toast m ''error'', ShowWebLoading False])"
    by (cases out)
      (auto simp: loadEntries_settled_def loadEntries_try_def loadEntries_catch_def emit_def
        Let_def handleError_nonempty)
  have b: "entries (loadEntries_settled app out) \<noteq> entries app
        \<or> totalEntries (loadEntries_settled app out) \<noteq> totalEntries app
       \<longrightarrow> (\<exists>response. out = Resolved response \<and> success response)"
    by (cases out)
      (auto simp: loadEntries_settled_def loadEntries_try_def loadEntries_catch_def emit_def
        Let_def split: if_splits)
  have c: "success response \<and> rdata response = Some d \<and> (d_entries d = None \<or> d_entries d = Some [])
       \<longrightarrow> entries (loadEntries_settled app (Resolved response)) = []
           \<and> effects (loadEntries_settled app (Resolved response))
               = effects app @ [RenderWebEntries [], ShowWebEmptyState True, ShowWebLoading False]"
    by (auto simp: loadEntries_settled_def loadEntries_try_def Let_def)
  have d: "0 < listFetches app \<longrightarrow>
        step Date_parse endOfToday app (ListSettled out) = loadEntries_settled app out"
    by simp
  from a b c d show ?thesis by blast
qed

lemma sampleLoaded_eq:
  "sampleLoaded =
     AdminApp\<lparr> currentView := ''webList'', entries := [sampleEntry], totalEntries := 1,
               webPagination := update (Pagination (Some 12) True) 1 1 1,
               effects := [ShowWebLoading True,
                 Request (GetEntries \<lparr> p_page = 1, p_size = 12,
                     p_filters = getAPIParams emptyFilters \<rparr>),
                           RenderWebEntries [sampleEntry], ShowWebEmptyState False,
                           ShowWebLoading False] \<rparr>"
  by (simp add: sampleLoaded_def run_def switchView_def loadEntries_def AdminApp_def Let_def
      loadEntries_settled_def loadEntries_try_def sampleList_def AdminPagination_update_def
      ceil12_def)

theorem failed_fetch_keeps_results_witness:
  "failed (Rejected ''TypeError: Failed to fetch'')
   \<and> 0 < listFetches (step sampleDate sampleEndOfToday sampleLoaded (PageChanged 2))
   \<and> entries (step sampleDate sampleEndOfToday
                (step sampleDate sampleEndOfToday sampleLoaded (PageChanged 2))
                (ListSettled (Rejected ''TypeError: Failed to fetch''))) = [sampleEntry]
   \<and> totalEntries (step sampleDate sampleEndOfToday
                (step sampleDate sampleEndOfToday sampleLoaded (PageChanged 2))
                (ListSettled (Rejected ''TypeError: Failed to fetch''))) = 1"
proof -
  let ?app = "step sampleDate sampleEndOfToday sampleLoaded (PageChanged 2)"
  have p: "0 < listFetches ?app" "entries ?app = [sampleEntry]" "totalEntries ?app = 1"
    by (simp_all add: sampleLoaded_eq handleWebPageChange_def loadEntries_def AdminApp_def)
  have f: "failed (Rejected ''TypeError: Failed to fetch'')"
    by simp
  from p f
    failed_fetch_keeps_results [of "Rejected ''TypeError: Failed to fetch''" ?app sampleOk
      "\<lparr> d_entries = None, d_total = None \<rparr>" sampleDate sampleEndOfToday]
  show ?thesis by simp
qed

section \<open>Properties of the delete flow\<close>

lemma dels_loadEntries:
  "filter isDeleteEntry (effects (loadEntries app)) = filter isDeleteEntry (effects app)"
  by (simp add: loadEntries_def)

lemma dels_other_loads:
  "filter isDeleteEntry (effects (loadDashboardStats app)) = filter isDeleteEntry (effects app)"
  "filter isDeleteEntry (effects (loadDashboardStats_settled app sout))
     = filter isDeleteEntry (effects app)"
  "filter isDeleteEntry (effects (loadCategories app)) = filter isDeleteEntry (effects app)"
  "filter isDeleteEntry (effects (loadCategories_settled app cout))
     = filter isDeleteEntry (effects app)"
  "filter isDeleteEntry (effects (renderCategoriesList app)) = filter isDeleteEntry (effects app)"
  by (auto simp: loadDashboardStats_def loadDashboardStats_settled_def loadCategories_def
      loadCategories_settled_def renderCategoriesList_def emit_def Let_def
      split: stats_outcome.splits categories_outcome.splits option.splits)

lemma dels_deliver:
  "\<forall>e\<in>set es. \<not> isDeleteEntry e \<Longrightarrow>
   filter isDeleteEntry (effects (deliver es app)) = filter isDeleteEntry (effects app)"
proof (induction es arbitrary: app)
  case Nil
  then show ?case by simp
next
  case (Cons e es)
  then have e: "\<not> isDeleteEntry e" and es: "\<forall>x\<in>set es. \<not> isDeleteEntry x"
    by simp_all
  have "filter isDeleteEntry
          (effects (case e of FiltersChange fv \<Rightarrow> handleWebFiltersChange (emit [e] app)
                    | _ \<Rightarrow> emit [e] app))
        = filter isDeleteEntry (effects app)"
    using e by (cases e) (simp_all add: handleWebFiltersChange_def dels_loadEntries emit_def)
  with Cons.IH [OF es] show ?case by simp
qed

lemma dels_filterEvent:
  "\<forall>e\<in>set (snd r). \<not> isDeleteEntry e \<Longrightarrow>
   filter isDeleteEntry (effects (filterEvent r app)) = filter isDeleteEntry (effects app)"
  by (simp add: filterEvent_def dels_deliver)

lemma dels_settled:
  "filter isDeleteEntry (effects (loadEntries_settled app out))
     = filter isDeleteEntry (effects app)"
  by (auto simp: loadEntries_settled_def loadEntries_try_def loadEntries_catch_def emit_def
      Let_def split: outcome.splits option.splits)

lemma step_no_delete:
  assumes "ev \<noteq> ConfirmClicked"
  shows "filter isDeleteEntry (effects (step Date_parse endOfToday app ev))
           = filter isDeleteEntry (effects app)"
proof (cases ev)
  case (SearchCommitted v)
  then show ?thesis
    by (auto intro!: dels_filterEvent simp: AdminFilters_handleSearchChange_def
        split: validation.splits)
next
  case (DateChanged v)
  then show ?thesis
    by (auto intro!: dels_filterEvent simp: AdminFilters_handleDateChange_def
        split: validation.splits)
next
  case (CategoryChanged v)
  then show ?thesis
    by (auto intro!: dels_filterEvent simp: AdminFilters_handleCategoryChange_def)
next
  case FiltersCleared
  then show ?thesis
    by (auto intro!: dels_filterEvent simp: AdminFilters_clearAllFilters_def)
next
  case (PageChanged pg)
  then show ?thesis
    by (simp add: handleWebPageChange_def dels_loadEntries)
next
  case (ViewSwitched v)
  then show ?thesis
    by (simp add: switchView_def Let_def dels_loadEntries dels_other_loads)
next
  case RefreshClicked
  then show ?thesis
    by (simp add: refreshCurrentView_def emit_def dels_loadEntries dels_other_loads)
next
  case EntryAdded
  then show ?thesis
    by (simp add: switchView_def Let_def emit_def dels_loadEntries)
next
  case EntrySaved
  then show ?thesis
    by (simp add: refreshCurrentView_def emit_def dels_loadEntries dels_other_loads)
next
  case (ListSettled out)
  then show ?thesis
    by (simp add: dels_settled)
next
  case (DeleteClicked sn sr img)
  then show ?thesis
    by (simp add: handleDeleteEntry_def openWithCallback_def emit_def split: option.splits)
next
  case (CategoryDeleteClicked nm)
  then show ?thesis
    by (simp add: handleDeleteCategory_def openWithCallback_def emit_def)
next
  case ConfirmClicked
  with assms show ?thesis by simp
next
  case ModalDismissed
  then show ?thesis
    by (simp add: closeModal_def emit_def)
next
  case (DeleteSettled out)
  then show ?thesis
    by (simp add: deleteEntry_settled_def Let_def emit_def dels_loadEntries
        split: outcome.splits)
next
  case Initialised
  then show ?thesis
    by (simp add: initialise_def loadInitialData_def dels_other_loads emit_def)
next
  case (StatsSettled out)
  then show ?thesis
    by (simp add: dels_other_loads)
next
  case (CategoriesSettled out)
  then show ?thesis
    by (simp add: dels_other_loads)
qed

lemma confirm_one_delete:
  "length (filter isDeleteEntry (effects (step Date_parse endOfToday app ConfirmClicked)))
     \<le> length (filter isDeleteEntry (effects app)) + 1"
  by (simp add: confirmDelete_def closeModal_def emit_def
      split: option.splits delete_callback.splits)

lemma sampleDeleting_eq:
  "sampleDeleting =
     sampleLoaded\<lparr> isLoading := True, listFetches := 1, deleteCalls := 1,
        webFilters := emptyFilters\<lparr> categoryFilter := ''Tools'' \<rparr>,
        deleteModal := \<lparr> isOpen = False, modalMessage = deleteMessage sampleEntry,
                         deleteCallback = Some (EntryDeletion ''Search'' 1 ''img-1'') \<rparr>,
        effects := effects sampleLoaded @
          [OpenDeleteModal (deleteMessage sampleEntry),
           Request (DeleteEntry ''Search'' 1 ''img-1''), CloseDeleteModal,
           FiltersChange (emptyFilters\<lparr> categoryFilter := ''Tools'' \<rparr>),
           ShowWebLoading True,
           Request (GetEntries \<lparr> p_page = 1, p_size = 12,
                 p_filters = getAPIParams (emptyFilters\<lparr> categoryFilter := ''Tools'' \<rparr>) \<rparr>)] \<rparr>"
  by (simp add: sampleDeleting_def sampleLoaded_eq run_def AdminApp_def handleDeleteEntry_def
      sampleEntry_def openWithCallback_def emit_def confirmDelete_def closeModal_def
      AdminFilters_handleCategoryChange_def filterEvent_def handleWebFiltersChange_def
      loadEntries_def deleteMessage_def)

text \<open>
  Claim C7, which fails as stated in its last part: with a list fetch in flight (here
  started by a filter change after the confirmation), a successful delete makes no list
  request, because \<open>loadEntries\<close> returns at its guard.
\<close>

theorem delete_refetch_counterexample:
  "0 < deleteCalls sampleDeleting \<and> success sampleOk
   \<and> filter isGetEntries
        (effects (step sampleDate sampleEndOfToday sampleDeleting (DeleteSettled (Resolved sampleOk))))
      = filter isGetEntries (effects sampleDeleting)"
  by (simp add: sampleDeleting_eq sampleOk_def deleteEntry_settled_def Let_def emit_def
      loadEntries_def)

text \<open>
  Claim C7 as amended. No event other than a press of the confirm button adds a delete
  request to the trace, and a press adds at most one. Pressing the delete button of an
  entry that the list holds opens the prompt with a message that carries the entry's name
  and makes no request; confirming it makes exactly one delete request, with the entry's
  sheet name, serial and image file reference, and closes the prompt. When the delete
  succeeds the current page stays as it is; if no list fetch is in flight the list is
  fetched again for that page, and if one is in flight no further request is made.
\<close>

theorem delete_after_confirmation:
  "(ev \<noteq> ConfirmClicked \<longrightarrow>
      filter isDeleteEntry (effects (step Date_parse endOfToday app ev))
        = filter isDeleteEntry (effects app))
   \<and> length (filter isDeleteEntry (effects (step Date_parse endOfToday app ConfirmClicked)))
        \<le> length (filter isDeleteEntry (effects app)) + 1
   \<and> (find (\<lambda>x. sheetName x = sheetName e \<and> serial x = serial e) (entries app) = Some e \<longrightarrow>
        step Date_parse endOfToday app (DeleteClicked (sheetName e) (serial e) (imageFileId e))
          = app\<lparr> deleteModal :=
                   \<lparr> isOpen = True, modalMessage = deleteMessage e,
                     deleteCallback =
                       Some (EntryDeletion (sheetName e) (serial e) (imageFileId e)) \<rparr>,
                 effects := effects app @ [OpenDeleteModal (deleteMessage e)] \<rparr>
        \<and> effects (step Date_parse endOfToday
                      (step Date_parse endOfToday app
                         (DeleteClicked (sheetName e) (serial e) (imageFileId e)))
                      ConfirmClicked)
            = effects app @
                [OpenDeleteModal (deleteMessage e),
                 Request (DeleteEntry (sheetName e) (serial e) (imageFileId e)),
                 CloseDeleteModal])
   \<and> (0 < deleteCalls app \<and> success response \<and> \<not> isLoading app \<longrightarrow>
        app_currentPage (step Date_parse endOfToday app (DeleteSettled (Resolved response)))
          = app_currentPage app
        \<and> effects (step Date_parse endOfToday app (DeleteSettled (Resolved response)))
            = effects app @
                [Toast ''Entry deleted successfully!'' ''success'', ShowWebLoading True,
                 Request (GetEntries \<lparr> p_page = app_currentPage app, p_size = 12,
                       p_filters = getAPIParams (webFilters app) \<rparr>)])
   \<and> (0 < deleteCalls app \<and> success response \<and> isLoading app \<longrightarrow>
        app_currentPage (step Date_parse endOfToday app (DeleteSettled (Resolved response)))
          = app_currentPage app
        \<and> effects (step Date_parse endOfToday app (DeleteSettled (Resolved response)))
            = effects app @ [Toast ''Entry deleted successfully!'' ''success''])"
proof -
  have a: "ev \<noteq> ConfirmClicked \<longrightarrow>
      filter isDeleteEntry (effects (step Date_parse endOfToday app ev))
        = filter isDeleteEntry (effects app)"
    by (simp add: step_no_delete)
  note b = confirm_one_delete [of Date_parse endOfToday app]
  have c: "find (\<lambda>x. sheetName x = sheetName e \<and> serial x = serial e) (entries app) = Some e \<longrightarrow>
        step Date_parse endOfToday app (DeleteClicked (sheetName e) (serial e) (imageFileId e))
          = app\<lparr> deleteModal :=
                   \<lparr> isOpen = True, modalMessage = deleteMessage e,
                     deleteCallback =
                       Some (EntryDeletion (sheetName e) (serial e) (imageFileId e)) \<rparr>,
                 effects := effects app @ [OpenDeleteModal (deleteMessage e)] \<rparr>
        \<and> effects (step Date_parse endOfToday
                      (step Date_parse endOfToday app
                         (DeleteClicked (sheetName e) (serial e) (imageFileId e)))
                      ConfirmClicked)
            = effects app @
                [OpenDeleteModal (deleteMessage e),
                 Request (DeleteEntry (sheetName e) (serial e) (imageFileId e)),
                 CloseDeleteModal]"
    by (simp add: handleDeleteEntry_def openWithCallback_def emit_def deleteMessage_def
        confirmDelete_def closeModal_def)
  have d: "0 < deleteCalls app \<and> success response \<and> \<not> isLoading app \<longrightarrow>
        app_currentPage (step Date_parse endOfToday app (DeleteSettled (Resolved response)))
          = app_currentPage app
        \<and> effects (step Date_parse endOfToday app (DeleteSettled (Resolved response)))
            = effects app @
                [Toast ''Entry deleted successfully!'' ''success'', ShowWebLoading True,
                 Request (GetEntries \<lparr> p_page = app_currentPage app, p_size = 12,
                       p_filters = getAPIParams (webFilters app) \<rparr>)]"
    by (simp add: deleteEntry_settled_def Let_def emit_def loadEntries_def)
  have e: "0 < deleteCalls app \<and> success response \<and> isLoading app \<longrightarrow>
        app_currentPage (step Date_parse endOfToday app (DeleteSettled (Resolved response)))
          = app_currentPage app
        \<and> effects (step Date_parse endOfToday app (DeleteSettled (Resolved response)))
            = effects app @ [Toast ''Entry deleted successfully!'' ''success'']"
    by (simp add: deleteEntry_settled_def Let_def emit_def loadEntries_def)
  from a b c d e show ?thesis by blast
qed

theorem delete_after_confirmation_witness:
  "find (\<lambda>x. sheetName x = sheetName sampleEntry \<and> serial x = serial sampleEntry)
      (entries sampleLoaded) = Some sampleEntry
   \<and> effects (step sampleDate sampleEndOfToday
                 (step sampleDate sampleEndOfToday sampleLoaded
                    (DeleteClicked (sheetName sampleEntry) (serial sampleEntry)
                       (imageFileId sampleEntry)))
                 ConfirmClicked)
       = effects sampleLoaded @
           [OpenDeleteModal (deleteMessage sampleEntry),
            Request (DeleteEntry (sheetName sampleEntry) (serial sampleEntry)
                       (imageFileId sampleEntry)),
            CloseDeleteModal]
   \<and> 0 < deleteCalls sampleDeleting \<and> success sampleOk \<and> isLoading sampleDeleting
   \<and> effects (step sampleDate sampleEndOfToday sampleDeleting (DeleteSettled (Resolved sampleOk)))
       = effects sampleDeleting @ [Toast ''Entry deleted successfully!'' ''success'']"
proof -
  have f: "find (\<lambda>x. sheetName x = sheetName sampleEntry \<and> serial x = serial sampleEntry)
      (entries sampleLoaded) = Some sampleEntry"
    by (simp add: sampleLoaded_eq)
  have d: "0 < deleteCalls sampleDeleting" "success sampleOk" "isLoading sampleDeleting"
    by (simp_all add: sampleDeleting_eq sampleOk_def)
  from f d
    delete_after_confirmation [of ModalDismissed sampleDate sampleEndOfToday sampleLoaded
      sampleEntry sampleOk]
    delete_after_confirmation [of ModalDismissed sampleDate sampleEndOfToday sampleDeleting
      sampleEntry sampleOk]
  show ?thesis by blast
qed

end
